theory Spec2Isabelle
  imports Complex_Main
begin

section \<open>Emotion classifier (total-final.py)\<close>

text \<open>
  \<^verbatim>\<open>EMOTION_RANGES\<close> is a Python dict; iteration follows insertion order, so it is
  kept as an association list in the order of the source. A Python float is read as the
  real number it denotes: the classifier only compares floats, and comparison is exact.
\<close>

definition EMOTION_RANGES :: "(string \<times> real \<times> real) list" where
  "EMOTION_RANGES =
     [(''Very Happy'', 0.6, 1.0),
      (''Happy'', 0.2, 0.6),
      (''Neutral'', - 0.2, 0.2),
      (''Sad'', - 0.6, - 0.2),
      (''Very Sad'', - 1.0, - 0.6)]"

text \<open>
  The \<^verbatim>\<open>for emotion, (low, high) in ...items()\<close> loop of
  \<^verbatim>\<open>determine_emotional_state\<close>: the first range that contains the sentiment wins,
  and falling out of the loop returns \<^verbatim>\<open>"Neutral"\<close>.
\<close>

fun emotion_lookup :: "(string \<times> real \<times> real) list \<Rightarrow> real \<Rightarrow> string" where
  "emotion_lookup [] sentiment = ''Neutral''"
| "emotion_lookup ((emotion, low, high) # rest) sentiment =
     (if low \<le> sentiment \<and> sentiment \<le> high then emotion
      else emotion_lookup rest sentiment)"

definition determine_emotional_state :: "real \<Rightarrow> string" where
  "determine_emotional_state sentiment = emotion_lookup EMOTION_RANGES sentiment"

section \<open>Text helpers of the Python library\<close>

text \<open>
  A text is a list of characters. What Python does with an ASCII character is written out:
  \<^verbatim>\<open>str.lower\<close> maps the upper-case letters to lower case, \<^verbatim>\<open>\w\<close> matches letters,
  digits and the underscore, and \<^verbatim>\<open>\s\<close> and \<^verbatim>\<open>str.split()\<close> take tab, line feed,
  vertical tab, form feed, carriage return, the four separators \<open>0x1C\<close> to \<open>0x1F\<close> and the
  space as white space. What it does with any other character is decided by the Unicode
  database of the Python runtime (\<^verbatim>\<open>str.lower\<close> maps \<^verbatim>\<open>U+00C9\<close> to \<^verbatim>\<open>U+00E9\<close>,
  \<^verbatim>\<open>\w\<close> matches \<^verbatim>\<open>U+00E9\<close>, and \<^verbatim>\<open>U+0085\<close> and \<^verbatim>\<open>U+00A0\<close> are white space). The
  database is not part of the repository, so its three tables are a parameter of the
  model.
\<close>

definition ascii_uppercase :: string where
  "ascii_uppercase = ''ABCDEFGHIJKLMNOPQRSTUVWXYZ''"

definition ascii_lowercase :: string where
  "ascii_lowercase = ''abcdefghijklmnopqrstuvwxyz''"

definition digits :: string where
  "digits = ''0123456789''"

definition whitespace :: string where
  "whitespace =
     [CHR 0x09, CHR 0x0A, CHR 0x0B, CHR 0x0C, CHR 0x0D,
      CHR 0x1C, CHR 0x1D, CHR 0x1E, CHR 0x1F, CHR '' '']"

definition is_ascii :: "char \<Rightarrow> bool" where
  "is_ascii c \<longleftrightarrow> (of_char c :: nat) < 128"

text \<open>
  The tables of the Unicode database: what \<^verbatim>\<open>str.lower\<close> returns for a text that has a
  character outside ASCII (the mapping looks at the neighbours of a character and can change
  the length of the text, so it is a function of the whole text), whether \<^verbatim>\<open>\w\<close> matches
  a character outside ASCII, and whether such a character is white space.
\<close>

record unicode =
  unicode_lower :: "string \<Rightarrow> string"
  unicode_word :: "char \<Rightarrow> bool"
  unicode_space :: "char \<Rightarrow> bool"

text \<open>\<^verbatim>\<open>str.isspace\<close> of one character; \<^verbatim>\<open>\s\<close> and \<^verbatim>\<open>str.split()\<close> use the same
  test.\<close>

definition isspace :: "unicode \<Rightarrow> char \<Rightarrow> bool" where
  "isspace U c = (if is_ascii c then c \<in> set whitespace else unicode_space U c)"

text \<open>Whether \<^verbatim>\<open>\w\<close> matches a character.\<close>

definition is_word_char :: "unicode \<Rightarrow> char \<Rightarrow> bool" where
  "is_word_char U c =
     (if is_ascii c then c \<in> set (ascii_lowercase @ ascii_uppercase @ digits @ ''_'')
      else unicode_word U c)"

definition char_lower :: "char \<Rightarrow> char" where
  "char_lower c =
     (case map_of (zip ascii_uppercase ascii_lowercase) c of Some l \<Rightarrow> l | None \<Rightarrow> c)"

text \<open>\<^verbatim>\<open>text.lower()\<close>.\<close>

definition str_lower :: "unicode \<Rightarrow> string \<Rightarrow> string" where
  "str_lower U text =
     (if list_all is_ascii text then map char_lower text else unicode_lower U text)"

text \<open>\<^verbatim>\<open>re.sub(r'[^\w\s]', '', text)\<close>: every character that is neither a word character
  nor white space is deleted.\<close>

definition re_sub_non_word_space :: "unicode \<Rightarrow> string \<Rightarrow> string" where
  "re_sub_non_word_space U text = filter (\<lambda>c. is_word_char U c \<or> isspace U c) text"

text \<open>\<^verbatim>\<open>str.split()\<close> without arguments: the maximal runs of characters that are not white
  space, in order; no empty string is ever produced. The second argument is the run being
  read.\<close>

fun str_split_from :: "unicode \<Rightarrow> string \<Rightarrow> string \<Rightarrow> string list" where
  "str_split_from U cur [] = (if cur = [] then [] else [cur])"
| "str_split_from U cur (c # cs) =
     (if isspace U c
      then (if cur = [] then str_split_from U [] cs else cur # str_split_from U [] cs)
      else str_split_from U (cur @ [c]) cs)"

definition str_split :: "unicode \<Rightarrow> string \<Rightarrow> string list" where
  "str_split U text = str_split_from U [] text"

text \<open>\<^verbatim>\<open>sep.join(parts)\<close>.\<close>

fun str_join :: "string \<Rightarrow> string list \<Rightarrow> string" where
  "str_join sep [] = []"
| "str_join sep [x] = x"
| "str_join sep (x # y # ys) = x @ sep @ str_join sep (y # ys)"

text \<open>
  \<^verbatim>\<open>collections.Counter(words)\<close>: a dict from word to count, filled by one pass over the
  words; a dict keeps its keys in insertion order, here the order of first occurrence, so it
  is an association list.
\<close>

fun counter_add :: "('a \<times> nat) list \<Rightarrow> 'a \<Rightarrow> ('a \<times> nat) list" where
  "counter_add [] w = [(w, 1)]"
| "counter_add ((k, c) # kvs) w =
     (if k = w then (k, c + 1) # kvs else (k, c) # counter_add kvs w)"

definition Counter :: "'a list \<Rightarrow> ('a \<times> nat) list" where
  "Counter words = foldl counter_add [] words"

text \<open>
  \<^verbatim>\<open>Counter.most_common(n)\<close> is \<^verbatim>\<open>heapq.nlargest(n, items, key=count)\<close>, which the
  library documents as \<^verbatim>\<open>sorted(items, key=count, reverse=True)[:n]\<close>: a stable sort by
  descending count, cut after \<open>n\<close> items, and empty when \<open>n \<le> 0\<close>.
\<close>

definition most_common :: "('a \<times> nat) list \<Rightarrow> int \<Rightarrow> ('a \<times> nat) list" where
  "most_common items n =
     (if n \<le> 0 then [] else take (nat n) (sort_key (\<lambda>(w, c). - int c) items))"

section \<open>Topic extraction (total-final.py, final.py)\<close>

definition stop_words :: "string list" where
  "stop_words =
     [''i'', ''me'', ''my'', ''myself'', ''we'', ''our'', ''ours'', ''ourselves'', ''you'',
      ''you're'', ''you've'', ''you'll'', ''you'd'', ''your'', ''yours'', ''yourself'',
      ''yourselves'', ''he'', ''him'', ''his'', ''himself'', ''she'', ''she's'', ''her'',
      ''hers'', ''herself'', ''it'', ''it's'', ''its'', ''itself'', ''they'', ''them'',
      ''their'', ''theirs'', ''themselves'', ''what'', ''which'', ''who'', ''whom'',
      ''this'', ''that'', ''that'll'', ''these'', ''those'', ''am'', ''is'', ''are'',
      ''was'', ''were'', ''be'', ''been'', ''being'', ''have'', ''has'', ''had'',
      ''having'', ''do'', ''does'', ''did'', ''doing'', ''a'', ''an'', ''the'', ''and'',
      ''but'', ''if'', ''or'', ''because'', ''as'', ''until'', ''while'', ''of'', ''at'',
      ''by'', ''for'', ''with'', ''about'', ''against'', ''between'', ''into'',
      ''through'', ''during'', ''before'', ''after'', ''above'', ''below'', ''to'',
      ''from'', ''up'', ''down'', ''in'', ''out'', ''on'', ''off'', ''over'', ''under'',
      ''again'', ''further'', ''then'', ''once'']"

text \<open>The words that survive the list comprehension of \<^verbatim>\<open>extract_topics\<close>: the tokens of
  the lower-cased, stripped text that are no stop word and longer than three characters.\<close>

definition topic_words :: "unicode \<Rightarrow> string \<Rightarrow> string list" where
  "topic_words U text =
     filter (\<lambda>word. word \<notin> set stop_words \<and> length word > 3)
       (str_split U (re_sub_non_word_space U (str_lower U text)))"

definition extract_topics :: "unicode \<Rightarrow> string \<Rightarrow> int \<Rightarrow> string list" where
  "extract_topics U text top_n = map fst (most_common (Counter (topic_words U text)) top_n)"

section \<open>Conversation analysis (total-final.py, final.py)\<close>

text \<open>A message of \<^verbatim>\<open>st.session_state.messages\<close>: a dict with the keys
  \<^verbatim>\<open>role\<close>, \<^verbatim>\<open>content\<close> and \<^verbatim>\<open>timestamp\<close> (the display time, a string).\<close>

record message =
  role :: string
  content :: string
  timestamp :: string

datatype py_error = ZeroDivisionError

text \<open>\<^verbatim>\<open>a / b\<close> on two lengths: Python raises on a zero divisor. The quotient is the exact
  one; Python rounds it to the nearest float.\<close>

definition truediv :: "nat \<Rightarrow> nat \<Rightarrow> py_error + real" where
  "truediv a b = (if b = 0 then Inl ZeroDivisionError else Inr (real a / real b))"

text \<open>The dict returned by \<^verbatim>\<open>analyze_conversation\<close> of total-final.py.\<close>

record analysis =
  sentiment :: real
  emotional_state :: string
  topics :: "string list"
  message_lengths :: "nat list"
  total_messages :: nat
  user_message_count :: nat
  avg_message_length :: real

text \<open>
  \<^verbatim>\<open>analyze_conversation\<close> of total-final.py. \<^verbatim>\<open>analyze_sentiment\<close> is TextBlob's
  polarity, a library function, and is a parameter, as the Unicode tables are. The result is \<open>Inr None\<close> for Python's
  \<^verbatim>\<open>None\<close> and \<open>Inl\<close> for an exception.
\<close>

definition analyze_conversation ::
  "unicode \<Rightarrow> (string \<Rightarrow> real) \<Rightarrow> message list \<Rightarrow> py_error + analysis option" where
  "analyze_conversation U analyze_sentiment messages =
     (if messages = [] then Inr None
      else
        let user_messages = map content (filter (\<lambda>msg. role msg = ''user'') messages);
            full_text = str_join '' '' user_messages;
            sentiment = analyze_sentiment full_text;
            emotional_state = determine_emotional_state sentiment;
            topics = extract_topics U full_text 5;
            message_lengths = map (\<lambda>msg. length (str_split U (content msg))) messages
        in case truediv (sum_list message_lengths) (length message_lengths) of
             Inl e \<Rightarrow> Inl e
           | Inr avg \<Rightarrow>
               Inr (Some \<lparr>sentiment = sentiment, emotional_state = emotional_state,
                          topics = topics, message_lengths = message_lengths,
                          total_messages = length messages,
                          user_message_count = length user_messages,
                          avg_message_length = avg\<rparr>))"

text \<open>The dict returned by \<^verbatim>\<open>analyze_conversation\<close> of final.py, the earlier variant of
  the application: no emotional state, and the text is the content of all messages.\<close>

record analysis_final =
  sentiment_final :: real
  topics_final :: "string list"
  message_lengths_final :: "nat list"
  total_messages_final :: nat
  avg_message_length_final :: real

definition analyze_conversation_final ::
  "unicode \<Rightarrow> (string \<Rightarrow> real) \<Rightarrow> message list \<Rightarrow> py_error + analysis_final option" where
  "analyze_conversation_final U analyze_sentiment messages =
     (if messages = [] then Inr None
      else
        let full_text = str_join '' '' (map content messages);
            message_lengths = map (\<lambda>msg. length (str_split U (content msg))) messages
        in case truediv (sum_list message_lengths) (length message_lengths) of
             Inl e \<Rightarrow> Inl e
           | Inr avg \<Rightarrow>
               Inr (Some \<lparr>sentiment_final = analyze_sentiment full_text,
                          topics_final = extract_topics U full_text 5,
                          message_lengths_final = message_lengths,
                          total_messages_final = length messages,
                          avg_message_length_final = avg\<rparr>))"

section \<open>Vocabulary for the order of the topics\<close>




section \<open>Blocking inference client with retries (app.py)\<close>

definition MAX_RETRIES :: nat where
  "MAX_RETRIES = 3"

text \<open>
  What one \<^verbatim>\<open>requests.post\<close> of \<^verbatim>\<open>send_message\<close> can do. A response carries its status
  code and what \<^verbatim>\<open>response.json()\<close> gives: a dict with or without the key
  \<^verbatim>\<open>response\<close>, or an exception (with its text). The request can also raise
  \<^verbatim>\<open>Timeout\<close>, \<^verbatim>\<open>ConnectionError\<close> or any other exception (with its text).
\<close>

datatype json_body = JsonObject "string option" | JsonRaises string

datatype outcome =
    Response nat json_body
  | Timeout
  | ConnectionError
  | OtherException string

text \<open>The effects of \<^verbatim>\<open>send_message\<close>: the number of requests sent so far and the
  arguments of the calls of \<^verbatim>\<open>time.sleep\<close>, in order.\<close>

record network =
  requests_sent :: nat
  sleeps :: "nat list"

definition sent :: "network \<Rightarrow> network" where
  "sent net = net\<lparr>requests_sent := requests_sent net + 1\<rparr>"

definition sleep :: "nat \<Rightarrow> network \<Rightarrow> network" where
  "sleep seconds net = net\<lparr>sleeps := sleeps net @ [seconds]\<rparr>"

text \<open>The prompt: the last five messages of the session, one line each, then the new
  message.\<close>

definition context_of :: "message list \<Rightarrow> string" where
  "context_of messages =
     str_join [CHR 0x0A]
       (map (\<lambda>msg. (if role msg = ''user'' then ''User'' else ''Assistant'')
                    @ '': '' @ content msg)
            (drop (length messages - 5) messages))"

definition prompt_of :: "message list \<Rightarrow> string \<Rightarrow> string" where
  "prompt_of messages message =
     ''Context:'' @ [CHR 0x0A] @ context_of messages @ [CHR 0x0A, CHR 0x0A]
       @ ''User: '' @ message @ [CHR 0x0A] @ ''Assistant:''"

text \<open>
  \<^verbatim>\<open>send_message(message, retries)\<close>. The backend is a parameter: \<open>backend n prompt\<close> is
  the outcome of the request sent when \<open>n\<close> requests have been sent before. Every exception
  of the \<^verbatim>\<open>try\<close> block is caught by one of the three handlers, so the result is always the
  returned string, together with the effects.
\<close>

function send_message ::
  "(nat \<Rightarrow> string \<Rightarrow> outcome) \<Rightarrow> message list \<Rightarrow> string \<Rightarrow> nat \<Rightarrow> network
     \<Rightarrow> string \<times> network" where
  "send_message backend messages message retries net =
     (if retries \<ge> MAX_RETRIES
      then (''Error: Maximum retries reached. Please try again later.'', net)
      else
        case backend (requests_sent net) (prompt_of messages message) of
          Response status_code body \<Rightarrow>
            (if status_code = 200
             then (case body of
                     JsonObject response_data \<Rightarrow>
                       (case response_data of
                          Some response \<Rightarrow> (response, sent net)
                        | None \<Rightarrow>
                            (''I apologize, but I couldn't generate a response.'', sent net))
                   | JsonRaises e \<Rightarrow> (''Error: '' @ e, sent net))
             else send_message backend messages message (retries + 1) (sleep 1 (sent net)))
        | Timeout \<Rightarrow>
            send_message backend messages message (retries + 1) (sleep 2 (sent net))
        | ConnectionError \<Rightarrow>
            (''Error: Could not connect to Ollama server. Please ensure it is running.'',
             sent net)
        | OtherException e \<Rightarrow> (''Error: '' @ e, sent net))"
  by pat_completeness auto
termination
  by (relation "measure (\<lambda>(backend, messages, message, retries, net). MAX_RETRIES - retries)")
    auto

declare send_message.simps [simp del]

text \<open>An outcome after which \<^verbatim>\<open>send_message\<close> calls itself again, and the time it
  sleeps before doing so.\<close>

definition retried :: "outcome \<Rightarrow> bool" where
  "retried out =
     (case out of Response status_code body \<Rightarrow> status_code \<noteq> 200 | Timeout \<Rightarrow> True
      | ConnectionError \<Rightarrow> False | OtherException e \<Rightarrow> False)"

definition wait_after :: "outcome \<Rightarrow> nat" where
  "wait_after out = (case out of Timeout \<Rightarrow> 2 | _ \<Rightarrow> 1)"

definition idle :: network where
  "idle = \<lparr>requests_sent = 0, sleeps = []\<rparr>"

section \<open>Conversation store (history.py, total-final.py)\<close>

text \<open>
  The two tables of the SQLite database, each a list of rows in rowid order, and the
  \<^verbatim>\<open>AUTOINCREMENT\<close> counters (the largest id ever given out). A timestamp is the reading
  of the database clock (\<^verbatim>\<open>CURRENT_TIMESTAMP\<close>, whole seconds) when the row is inserted;
  the clock is an argument of every insertion. The \<^verbatim>\<open>topics\<close> column holds the list that
  \<^verbatim>\<open>json.dumps\<close> serialises.
\<close>

record conversation_row =
  conv_id :: int
  conv_session_id :: string
  conv_timestamp :: nat
  conv_sentiment :: "real option"
  conv_topics :: "string list option"

record message_row =
  msg_id :: int
  msg_conversation_id :: int
  msg_role :: string
  msg_content :: string
  msg_timestamp :: nat

record database =
  conversations_table :: "conversation_row list"
  messages_table :: "message_row list"
  conversations_seq :: int
  messages_seq :: int

definition empty_database :: database where
  "empty_database =
     \<lparr>conversations_table = [], messages_table = [], conversations_seq = 0, messages_seq = 0\<rparr>"

text \<open>\<^verbatim>\<open>start_new_conversation\<close>: inserts a conversation row and returns
  \<^verbatim>\<open>cursor.lastrowid\<close>.\<close>

definition start_new_conversation :: "database \<Rightarrow> string \<Rightarrow> nat \<Rightarrow> int \<times> database" where
  "start_new_conversation db session_id now =
     (conversations_seq db + 1,
      db\<lparr>conversations_table := conversations_table db @
            [\<lparr>conv_id = conversations_seq db + 1, conv_session_id = session_id,
              conv_timestamp = now, conv_sentiment = None, conv_topics = None\<rparr>],
         conversations_seq := conversations_seq db + 1\<rparr>)"

text \<open>
  \<^verbatim>\<open>add_message\<close>: one \<^verbatim>\<open>INSERT INTO messages\<close>. The function does not look the
  conversation up, and the connection that \<^verbatim>\<open>sqlite3.connect\<close> opens does not enforce the
  foreign key of the schema (SQLite enforces foreign keys only after
  \<^verbatim>\<open>PRAGMA foreign_keys = ON\<close>, which the repository never issues), so the row is
  inserted whatever the conversation id is, and nothing is raised.
\<close>

definition add_message :: "database \<Rightarrow> int \<Rightarrow> string \<Rightarrow> string \<Rightarrow> nat \<Rightarrow> database" where
  "add_message db conversation_id role' content' now =
     db\<lparr>messages_table := messages_table db @
           [\<lparr>msg_id = messages_seq db + 1, msg_conversation_id = conversation_id,
             msg_role = role', msg_content = content', msg_timestamp = now\<rparr>],
        messages_seq := messages_seq db + 1\<rparr>"

text \<open>An entry of the list that \<^verbatim>\<open>get_conversation_history\<close> returns.\<close>

record history_entry =
  entry_role :: string
  entry_content :: string
  entry_timestamp :: nat

text \<open>
  \<^verbatim>\<open>get_conversation_history\<close>:
  \<^verbatim>\<open>SELECT role, content, timestamp FROM messages WHERE conversation_id = ? ORDER BY timestamp\<close>.
  The rows of the conversation are taken in rowid order and sorted by timestamp; rows with
  equal timestamps stay in rowid order, as SQLite's sorter leaves them (SQL itself does
  not fix the order of such rows).
\<close>

definition get_conversation_history :: "database \<Rightarrow> int \<Rightarrow> history_entry list" where
  "get_conversation_history db conversation_id =
     map (\<lambda>row. \<lparr>entry_role = msg_role row, entry_content = msg_content row,
                   entry_timestamp = msg_timestamp row\<rparr>)
       (sort_key msg_timestamp
          (filter (\<lambda>row. msg_conversation_id row = conversation_id) (messages_table db)))"

text \<open>\<^verbatim>\<open>update_conversation_analysis\<close>:
  \<^verbatim>\<open>UPDATE conversations SET sentiment = ?, topics = ? WHERE id = ?\<close>. An \<^verbatim>\<open>UPDATE\<close>
  that matches no row changes nothing and raises nothing.\<close>

definition update_conversation_analysis ::
  "database \<Rightarrow> int \<Rightarrow> real \<Rightarrow> string list \<Rightarrow> database" where
  "update_conversation_analysis db conversation_id sentiment' topics' =
     db\<lparr>conversations_table :=
          map (\<lambda>row. if conv_id row = conversation_id
                      then row\<lparr>conv_sentiment := Some sentiment', conv_topics := Some topics'\<rparr>
                      else row)
            (conversations_table db)\<rparr>"

text \<open>A call of \<^verbatim>\<open>add_message\<close>: its arguments and the reading of the database clock
  at the insertion.\<close>

record call =
  call_conversation_id :: int
  call_role :: string
  call_content :: string
  call_now :: nat

text \<open>A sequence of calls of \<^verbatim>\<open>add_message\<close>, run in order.\<close>

fun add_messages :: "database \<Rightarrow> call list \<Rightarrow> database" where
  "add_messages db [] = db"
| "add_messages db (c # calls) =
     add_messages
       (add_message db (call_conversation_id c) (call_role c) (call_content c) (call_now c))
       calls"

text \<open>The turns that a sequence of calls appends to one conversation, as
  \<^verbatim>\<open>{role, content}\<close> pairs in the order of the calls.\<close>

definition turns_for :: "int \<Rightarrow> call list \<Rightarrow> (string \<times> string) list" where
  "turns_for conversation_id calls =
     map (\<lambda>c. (call_role c, call_content c))
       (filter (\<lambda>c. call_conversation_id c = conversation_id) calls)"

section \<open>Streaming inference client and the chat page (total-final.py)\<close>

text \<open>
  What the streaming \<^verbatim>\<open>requests.post\<close> of \<^verbatim>\<open>stream_response\<close> can do: raise (with the
  exception's text), or open a stream. A stream is the list of lines that
  \<^verbatim>\<open>response.iter_lines()\<close> yields and the way the iterator ends: normally, or by raising
  (a timeout or a dropped connection while reading). A line is empty (skipped by
  \<^verbatim>\<open>if line\<close>), or a JSON object with or without the key \<^verbatim>\<open>response\<close>, or a line on
  which \<^verbatim>\<open>json.loads\<close> or the handling of the token raises (with the exception's text).
\<close>

datatype stream_line = EmptyLine | JsonLine "string option" | BadLine string

datatype stream_end = EndOfStream | StreamRaises string

datatype post_outcome = PostRaises string | Streaming "stream_line list" stream_end

text \<open>\<^verbatim>\<open>st.session_state\<close>, with the keys that \<^verbatim>\<open>setup_session_state\<close> creates.\<close>

record session =
  session_messages :: "message list"
  session_model_ready :: bool
  session_current_response :: string
  session_conversation_id :: int
  session_page :: string
  session_stop_generation :: bool

definition PROMPT_SUFFIX :: string where
  "PROMPT_SUFFIX =
     [CHR 0x0A, CHR 0x0A] @
     ''Please keep your response concise and focused, ideally under 3-4 sentences unless '' @
     ''more detail is specifically requested. gimme in points when required , move to '' @
     ''second line when need, be precise, start with question about question, use <br> '' @
     ''after every point, ''"

text \<open>How the \<^verbatim>\<open>for line in response.iter_lines()\<close> loop is left: the lines ran out, the
  \<^verbatim>\<open>break\<close> of the stop check was taken, or the body raised.\<close>

datatype loop_exit = Exhausted | Stopped | Raised string

text \<open>
  The loop of \<^verbatim>\<open>stream_response\<close>. \<open>stop_button\<close> is the value of the button, fixed for
  the run; \<open>flag i\<close> is what \<^verbatim>\<open>st.session_state.stop_generation\<close> reads when the loop
  checks it for the \<open>i\<close>-th time, the flag being set from outside the function. The check
  comes first in every iteration, before the line is looked at. \<open>acc\<close> is
  \<^verbatim>\<open>accumulated_response\<close>, and \<open>shown\<close> lists the partial replies written to the
  response container.
\<close>

fun iter_lines_loop ::
  "bool \<Rightarrow> (nat \<Rightarrow> bool) \<Rightarrow> nat \<Rightarrow> stream_line list \<Rightarrow> string list \<Rightarrow> string list
     \<Rightarrow> loop_exit \<times> string list \<times> string list" where
  "iter_lines_loop stop_button flag i [] acc shown = (Exhausted, acc, shown)"
| "iter_lines_loop stop_button flag i (line # rest) acc shown =
     (if stop_button \<or> flag i then (Stopped, acc, shown)
      else
        case line of
          EmptyLine \<Rightarrow> iter_lines_loop stop_button flag (Suc i) rest acc shown
        | JsonLine json_response \<Rightarrow>
            (let token = (case json_response of Some t \<Rightarrow> t | None \<Rightarrow> '''')
             in iter_lines_loop stop_button flag (Suc i) rest (acc @ [token])
                  (shown @ [concat (acc @ [token])]))
        | BadLine e \<Rightarrow> (Raised e, acc, shown))"

text \<open>
  \<^verbatim>\<open>stream_response\<close>: the reply, the partial replies shown, and the session state
  (the stop check resets \<^verbatim>\<open>stop_generation\<close> before it breaks). Every exception of the
  \<^verbatim>\<open>try\<close> block ends in the handler that returns \<^verbatim>\<open>f"Error: {str(e)}"\<close>.
\<close>

definition stream_response ::
  "(string \<Rightarrow> post_outcome) \<Rightarrow> bool \<Rightarrow> (nat \<Rightarrow> bool) \<Rightarrow> string \<Rightarrow> session
     \<Rightarrow> string \<times> string list \<times> session" where
  "stream_response backend stop_button flag message sess =
     (case backend (message @ PROMPT_SUFFIX) of
        PostRaises e \<Rightarrow> (''Error: '' @ e, [], sess)
      | Streaming lines ending \<Rightarrow>
          (case iter_lines_loop stop_button flag 0 lines [] [] of
             (Stopped, acc, shown) \<Rightarrow>
               (concat acc, shown, sess\<lparr>session_stop_generation := False\<rparr>)
           | (Exhausted, acc, shown) \<Rightarrow>
               (case ending of
                  EndOfStream \<Rightarrow> (concat acc, shown, sess)
                | StreamRaises e \<Rightarrow> (''Error: '' @ e, shown, sess))
           | (Raised e, acc, shown) \<Rightarrow> (''Error: '' @ e, shown, sess)))"

text \<open>\<^verbatim>\<open>save_message\<close> of total-final.py: the \<^verbatim>\<open>INSERT\<close> of \<^verbatim>\<open>add_message\<close>, for the
  conversation of the session.\<close>

definition save_message :: "session \<Rightarrow> database \<Rightarrow> string \<Rightarrow> string \<Rightarrow> nat \<Rightarrow> database" where
  "save_message sess db role' content' now =
     add_message db (session_conversation_id sess) role' content' now"

text \<open>
  What one run of \<^verbatim>\<open>display_chat_page\<close> gets from outside: the answer of the health
  probe, the chat input (if any), the display time, the backend, the stop button, the
  readings of the stop flag, and the readings of the database clock at the two insertions.
\<close>

record page_run =
  env_ollama_running :: bool
  env_user_input :: "string option"
  env_display_time :: string
  env_backend :: "string \<Rightarrow> post_outcome"
  env_stop_button :: bool
  env_stop_flag :: "nat \<Rightarrow> bool"
  env_clock_user :: nat
  env_clock_assistant :: nat

text \<open>\<^verbatim>\<open>display_chat_page\<close>, as far as it changes the session and the store: the health
  check, and the submit path under \<^verbatim>\<open>if user_input\<close>.\<close>

definition display_chat_page :: "page_run \<Rightarrow> session \<Rightarrow> database \<Rightarrow> session \<times> database" where
  "display_chat_page env sess db =
     (if \<not> env_ollama_running env then (sess, db)
      else
        let sess1 = sess\<lparr>session_model_ready := True\<rparr> in
        case env_user_input env of
          None \<Rightarrow> (sess1, db)
        | Some user_input \<Rightarrow>
            if user_input = [] then (sess1, db)
            else
              let sess2 = sess1\<lparr>session_messages := session_messages sess1 @
                            [\<lparr>role = ''user'', content = user_input,
                              timestamp = env_display_time env\<rparr>]\<rparr>;
                  db1 = save_message sess2 db ''user'' user_input (env_clock_user env);
                  (response, shown, sess3) =
                    stream_response (env_backend env) (env_stop_button env) (env_stop_flag env)
                      user_input sess2;
                  sess4 = sess3\<lparr>session_messages := session_messages sess3 @
                            [\<lparr>role = ''assistant'', content = response,
                              timestamp = env_display_time env\<rparr>]\<rparr>;
                  db2 = save_message sess4 db1 ''assistant'' response (env_clock_assistant env)
              in (sess4, db2))"

text \<open>The tokens that the loop appends for a list of lines, and the lines on which the
  loop body does not raise.\<close>

fun tokens :: "stream_line list \<Rightarrow> string list" where
  "tokens [] = []"
| "tokens (EmptyLine # rest) = tokens rest"
| "tokens (JsonLine json_response # rest) =
     (case json_response of Some t \<Rightarrow> t | None \<Rightarrow> '''') # tokens rest"
| "tokens (BadLine e # rest) = tokens rest"

fun well_formed :: "stream_line \<Rightarrow> bool" where
  "well_formed (BadLine e) = False"
| "well_formed line = True"

section \<open>Properties of the emotion classifier\<close>

lemma determine_emotional_state_cases:
  "determine_emotional_state s =
     (if 0.6 \<le> s \<and> s \<le> 1 then ''Very Happy''
      else if 0.2 \<le> s \<and> s \<le> 0.6 then ''Happy''
      else if - 0.2 \<le> s \<and> s \<le> 0.2 then ''Neutral''
      else if - 0.6 \<le> s \<and> s \<le> - 0.2 then ''Sad''
      else if - 1 \<le> s \<and> s \<le> - 0.6 then ''Very Sad''
      else ''Neutral'')"
  by (simp add: determine_emotional_state_def EMOTION_RANGES_def)

text \<open>
  C1 (as the code has it). The ranges of the table are closed on both sides and are tried
  from \<^verbatim>\<open>"Very Happy"\<close> downwards, so a boundary value belongs to the upper of the
  two ranges that contain it. For every sentiment in \<open>[-1, 1]\<close> the classifier returns one
  of the five labels, and the label is decided by the half-open ranges
  Very Sad \<open>[-1, -0.6)\<close>, Sad \<open>[-0.6, -0.2)\<close>, Neutral \<open>[-0.2, 0.2)\<close>, Happy \<open>[0.2, 0.6)\<close>,
  Very Happy \<open>[0.6, 1]\<close>, which cover \<open>[-1, 1]\<close> without gap or overlap. In particular
  \<open>-1\<close> is Very Sad, \<open>0\<close> is Neutral, \<open>1\<close> is Very Happy, and both \<open>0.2\<close> and \<open>0.2000001\<close>
  are Happy.
\<close>

theorem determine_emotional_state_partition:
  "- 1 \<le> s \<and> s \<le> 1 \<longrightarrow>
     determine_emotional_state s \<in> {''Very Sad'', ''Sad'', ''Neutral'', ''Happy'', ''Very Happy''}
     \<and> (determine_emotional_state s = ''Very Sad'' \<longleftrightarrow> s < - 0.6)
     \<and> (determine_emotional_state s = ''Sad'' \<longleftrightarrow> - 0.6 \<le> s \<and> s < - 0.2)
     \<and> (determine_emotional_state s = ''Neutral'' \<longleftrightarrow> - 0.2 \<le> s \<and> s < 0.2)
     \<and> (determine_emotional_state s = ''Happy'' \<longleftrightarrow> 0.2 \<le> s \<and> s < 0.6)
     \<and> (determine_emotional_state s = ''Very Happy'' \<longleftrightarrow> 0.6 \<le> s)
     \<and> determine_emotional_state (- 1.0) = ''Very Sad''
     \<and> determine_emotional_state 0.0 = ''Neutral''
     \<and> determine_emotional_state 1.0 = ''Very Happy''
     \<and> determine_emotional_state 0.2 = ''Happy''
     \<and> determine_emotional_state 0.2000001 = ''Happy''"
  by (simp add: determine_emotional_state_cases)

theorem determine_emotional_state_partition_witness:
  "- 1 \<le> (0.2 :: real) \<and> (0.2 :: real) \<le> 1
   \<and> determine_emotional_state 0.2 = ''Happy''
   \<and> \<not> ((0.2 :: real) < 0.2)
   \<and> determine_emotional_state (- 0.6) = ''Sad''"
  using determine_emotional_state_partition [of "0.2"]
    determine_emotional_state_partition [of "- 0.6"]
  by simp

text \<open>
  C1 (as the spec states it) fails at the boundary \<open>0.2\<close>: the spec expects Neutral, the
  code answers Happy, because \<open>0.2\<close> lies in the closed ranges of both Happy and Neutral
  and Happy is tried first.
\<close>

theorem determine_emotional_state_boundary_counterexample:
  "determine_emotional_state 0.2 \<noteq> ''Neutral''
   \<and> determine_emotional_state 0.2 = ''Happy''
   \<and> (0.2 :: real) \<le> 0.2 \<and> (0.2 :: real) \<le> 0.6
   \<and> - 0.2 \<le> (0.2 :: real) \<and> (0.2 :: real) \<le> 0.2"
  by (simp add: determine_emotional_state_cases)

text \<open>
  C7 (as the code has it). A sentiment outside \<open>[-1, 1]\<close> matches no range of the table,
  and the classifier returns its default \<^verbatim>\<open>"Neutral"\<close>; it does not raise and it does not
  clamp to the nearest boundary.
\<close>

theorem determine_emotional_state_out_of_domain:
  "s < - 1 \<or> 1 < s \<Longrightarrow> determine_emotional_state s = ''Neutral''"
  by (auto simp add: determine_emotional_state_cases)

theorem determine_emotional_state_out_of_domain_witness:
  "((2 :: real) < - 1 \<or> 1 < (2 :: real)) \<and> determine_emotional_state 2 = ''Neutral''"
  using determine_emotional_state_out_of_domain [of 2] by simp

text \<open>
  C7 (as the spec states it) fails: \<open>2 > 1\<close> is classified Neutral, not Very Happy, and
  \<open>-2 < -1\<close> is classified Neutral, not Very Sad.
\<close>

theorem determine_emotional_state_clamp_counterexample:
  "determine_emotional_state 2 \<noteq> ''Very Happy''
   \<and> determine_emotional_state (- 2) \<noteq> ''Very Sad''
   \<and> determine_emotional_state 2 = ''Neutral''
   \<and> determine_emotional_state (- 2) = ''Neutral''"
  by (simp add: determine_emotional_state_cases)

section \<open>Properties of topic extraction\<close>





























section \<open>Properties of the conversation analysis\<close>

lemma truediv_pos: "0 < b \<Longrightarrow> truediv a b = Inr (real a / real b)"
  by (simp add: truediv_def)

text \<open>\<^verbatim>\<open>sep.join(parts)\<close> is the concatenation of the parts, the separator after every part
  but the last.\<close>

lemma str_join_concat:
  "str_join sep parts =
     (if parts = [] then [] else concat (map (\<lambda>x. x @ sep) (butlast parts)) @ last parts)"
  by (induction sep parts rule: str_join.induct) simp_all

lemma analyze_conversation_nonempty:
  assumes "messages \<noteq> []"
  shows "analyze_conversation U analyze_sentiment messages =
     Inr (Some
       \<lparr>sentiment = analyze_sentiment
           (str_join '' '' (map content (filter (\<lambda>msg. role msg = ''user'') messages))),
        emotional_state = determine_emotional_state (analyze_sentiment
           (str_join '' '' (map content (filter (\<lambda>msg. role msg = ''user'') messages)))),
        topics = extract_topics U
           (str_join '' '' (map content (filter (\<lambda>msg. role msg = ''user'') messages))) 5,
        message_lengths = map (\<lambda>msg. length (str_split U (content msg))) messages,
        total_messages = length messages,
        user_message_count = length (filter (\<lambda>msg. role msg = ''user'') messages),
        avg_message_length =
          real (sum_list (map (\<lambda>msg. length (str_split U (content msg))) messages))
            / real (length messages)\<rparr>)"
  using assms by (simp add: analyze_conversation_def Let_def truediv_pos)

lemma analyze_conversation_final_nonempty:
  assumes "messages \<noteq> []"
  shows "analyze_conversation_final U analyze_sentiment messages =
     Inr (Some
       \<lparr>sentiment_final = analyze_sentiment (str_join '' '' (map content messages)),
        topics_final = extract_topics U (str_join '' '' (map content messages)) 5,
        message_lengths_final = map (\<lambda>msg. length (str_split U (content msg))) messages,
        total_messages_final = length messages,
        avg_message_length_final =
          real (sum_list (map (\<lambda>msg. length (str_split U (content msg))) messages))
            / real (length messages)\<rparr>)"
  using assms by (simp add: analyze_conversation_final_def Let_def truediv_pos)

text \<open>
  \<^verbatim>\<open>analyze_conversation\<close> of total-final.py does what C2 says. For a non-empty list of
  turns it returns a bundle whose sentiment and topics are computed from the text made of
  the contents of the turns with role \<^verbatim>\<open>user\<close>, in order, a space between one and the
  next; any other non-empty list of turns with the same user contents, whatever its
  assistant turns say, gets the same sentiment, emotional state and topics. The per-turn
  word counts are taken over all turns, one per turn, and their mean divides their sum by
  the number of all turns.
\<close>

lemma analyze_conversation_user_turns_only:
  assumes "messages \<noteq> []"
  shows "\<exists>a. analyze_conversation U analyze_sentiment messages = Inr (Some a)
        \<and> sentiment a = analyze_sentiment
             (if filter (\<lambda>msg. role msg = ''user'') messages = [] then []
              else concat (map (\<lambda>msg. content msg @ '' '')
                     (butlast (filter (\<lambda>msg. role msg = ''user'') messages)))
                   @ content (last (filter (\<lambda>msg. role msg = ''user'') messages)))
        \<and> topics a = extract_topics U
             (if filter (\<lambda>msg. role msg = ''user'') messages = [] then []
              else concat (map (\<lambda>msg. content msg @ '' '')
                     (butlast (filter (\<lambda>msg. role msg = ''user'') messages)))
                   @ content (last (filter (\<lambda>msg. role msg = ''user'') messages))) 5
        \<and> emotional_state a = determine_emotional_state (sentiment a)
        \<and> message_lengths a = map (\<lambda>msg. length (str_split U (content msg))) messages
        \<and> length (message_lengths a) = length messages
        \<and> avg_message_length a = real (sum_list (message_lengths a)) / real (length messages)
        \<and> (\<forall>others.
              others \<noteq> []
              \<and> map content (filter (\<lambda>msg. role msg = ''user'') others)
                  = map content (filter (\<lambda>msg. role msg = ''user'') messages)
              \<longrightarrow> (\<exists>b. analyze_conversation U analyze_sentiment others = Inr (Some b)
                     \<and> sentiment b = sentiment a
                     \<and> emotional_state b = emotional_state a
                     \<and> topics b = topics a))"
proof -
  let ?users = "filter (\<lambda>msg. role msg = ''user'') messages"
  have "str_join '' '' (map content ?users) =
      (if ?users = [] then []
       else concat (map (\<lambda>msg. content msg @ '' '') (butlast ?users)) @ content (last ?users))"
    by (simp add: str_join_concat map_butlast [symmetric] last_map comp_def)
  then show ?thesis
    using assms by (simp add: analyze_conversation_nonempty)
qed

text \<open>
  \<^verbatim>\<open>analyze_conversation\<close> of final.py, the earlier variant of the application, has no
  filter on the role: its text is the content of all turns.
\<close>

lemma analyze_conversation_final_all_turns:
  "messages \<noteq> [] \<Longrightarrow>
     \<exists>a. analyze_conversation_final U analyze_sentiment messages = Inr (Some a)
        \<and> sentiment_final a = analyze_sentiment (str_join '' '' (map content messages))
        \<and> topics_final a = extract_topics U (str_join '' '' (map content messages)) 5"
  by (simp add: analyze_conversation_final_nonempty)

lemma topic_words_user_turns:
  "topic_words U ''I feel great today but tired''
     = [''feel'', ''great'', ''today'', ''tired'']"
proof -
  have a: "list_all is_ascii ''I feel great today but tired''"
    by (simp add: is_ascii_def)
  have l: "str_lower U ''I feel great today but tired''
      = ''i feel great today but tired''"
    unfolding str_lower_def
    by (simp only: a if_True)
      (simp add: char_lower_def ascii_uppercase_def ascii_lowercase_def)
  have s: "re_sub_non_word_space U ''i feel great today but tired''
      = ''i feel great today but tired''"
    by (simp add: re_sub_non_word_space_def is_word_char_def isspace_def is_ascii_def
        whitespace_def ascii_uppercase_def ascii_lowercase_def digits_def)
  have p: "str_split U ''i feel great today but tired''
      = [''i'', ''feel'', ''great'', ''today'', ''but'', ''tired'']"
    by (simp add: str_split_def isspace_def is_ascii_def whitespace_def)
  show ?thesis
    unfolding topic_words_def l s p by (simp add: stop_words_def)
qed

lemma topic_words_all_turns:
  "topic_words U ''I feel great today glad glad glad glad glad but tired''
     = [''feel'', ''great'', ''today'', ''glad'', ''glad'', ''glad'', ''glad'', ''glad'', ''tired'']"
proof -
  have a: "list_all is_ascii ''I feel great today glad glad glad glad glad but tired''"
    by (simp add: is_ascii_def)
  have l: "str_lower U ''I feel great today glad glad glad glad glad but tired''
      = ''i feel great today glad glad glad glad glad but tired''"
    unfolding str_lower_def
    by (simp only: a if_True)
      (simp add: char_lower_def ascii_uppercase_def ascii_lowercase_def)
  have s: "re_sub_non_word_space U ''i feel great today glad glad glad glad glad but tired''
      = ''i feel great today glad glad glad glad glad but tired''"
    by (simp add: re_sub_non_word_space_def is_word_char_def isspace_def is_ascii_def
        whitespace_def ascii_uppercase_def ascii_lowercase_def digits_def)
  have p: "str_split U ''i feel great today glad glad glad glad glad but tired''
      = [''i'', ''feel'', ''great'', ''today'', ''glad'', ''glad'', ''glad'', ''glad'', ''glad'', ''but'', ''tired'']"
    by (simp add: str_split_def isspace_def is_ascii_def whitespace_def)
  show ?thesis
    unfolding topic_words_def l s p by (simp add: stop_words_def)
qed

lemma topic_words_one_turn:
  "topic_words U ''I feel great today''
     = [''feel'', ''great'', ''today'']"
proof -
  have a: "list_all is_ascii ''I feel great today''"
    by (simp add: is_ascii_def)
  have l: "str_lower U ''I feel great today''
      = ''i feel great today''"
    unfolding str_lower_def
    by (simp only: a if_True)
      (simp add: char_lower_def ascii_uppercase_def ascii_lowercase_def)
  have s: "re_sub_non_word_space U ''i feel great today''
      = ''i feel great today''"
    by (simp add: re_sub_non_word_space_def is_word_char_def isspace_def is_ascii_def
        whitespace_def ascii_uppercase_def ascii_lowercase_def digits_def)
  have p: "str_split U ''i feel great today''
      = [''i'', ''feel'', ''great'', ''today'']"
    by (simp add: str_split_def isspace_def is_ascii_def whitespace_def)
  show ?thesis
    unfolding topic_words_def l s p by (simp add: stop_words_def)
qed

lemma str_split_examples:
  "str_split U ''I feel great today'' = [''I'', ''feel'', ''great'', ''today'']"
  "str_split U ''glad glad glad glad glad'' = [''glad'', ''glad'', ''glad'', ''glad'', ''glad'']"
  "str_split U ''but tired'' = [''but'', ''tired'']"
  by (simp_all add: str_split_def isspace_def is_ascii_def whitespace_def)

text \<open>
  C2. On the turns user \<^verbatim>\<open>"I feel great today"\<close>, assistant
  \<^verbatim>\<open>"glad glad glad glad glad"\<close>, user \<^verbatim>\<open>"but tired"\<close>, the two variants of
  \<^verbatim>\<open>analyze_conversation\<close> part. total-final.py analyses the user text
  \<^verbatim>\<open>"I feel great today but tired"\<close>, as C2 says. final.py analyses
  \<^verbatim>\<open>"I feel great today glad glad glad glad glad but tired"\<close>: the assistant turn is part
  of the text given to the sentiment analysis, and its word \<^verbatim>\<open>glad\<close> is the first topic.
  Both count the words of all three turns, 4, 5 and 2, with mean 11/3.
\<close>

theorem analyze_conversation_final_reads_assistant_turns:
  "analyze_conversation_final U analyze_sentiment
     [\<lparr>role = ''user'', content = ''I feel great today'', timestamp = ''09:00 AM''\<rparr>,
      \<lparr>role = ''assistant'', content = ''glad glad glad glad glad'', timestamp = ''09:00 AM''\<rparr>,
      \<lparr>role = ''user'', content = ''but tired'', timestamp = ''09:05 AM''\<rparr>]
   = Inr (Some
       \<lparr>sentiment_final =
          analyze_sentiment ''I feel great today glad glad glad glad glad but tired'',
        topics_final = [''glad'', ''feel'', ''great'', ''today'', ''tired''],
        message_lengths_final = [4, 5, 2], total_messages_final = 3,
        avg_message_length_final = 11 / 3\<rparr>)
   \<and> analyze_conversation U analyze_sentiment
     [\<lparr>role = ''user'', content = ''I feel great today'', timestamp = ''09:00 AM''\<rparr>,
      \<lparr>role = ''assistant'', content = ''glad glad glad glad glad'', timestamp = ''09:00 AM''\<rparr>,
      \<lparr>role = ''user'', content = ''but tired'', timestamp = ''09:05 AM''\<rparr>]
   = Inr (Some
       \<lparr>sentiment = analyze_sentiment ''I feel great today but tired'',
        emotional_state =
          determine_emotional_state (analyze_sentiment ''I feel great today but tired''),
        topics = [''feel'', ''great'', ''today'', ''tired''],
        message_lengths = [4, 5, 2], total_messages = 3, user_message_count = 2,
        avg_message_length = 11 / 3\<rparr>)"
proof -
  have all: "extract_topics U ''I feel great today glad glad glad glad glad but tired'' 5
      = [''glad'', ''feel'', ''great'', ''today'', ''tired'']"
    unfolding extract_topics_def topic_words_all_turns
    by (simp add: Counter_def most_common_def)
  have users: "extract_topics U ''I feel great today but tired'' 5
      = [''feel'', ''great'', ''today'', ''tired'']"
    unfolding extract_topics_def topic_words_user_turns
    by (simp add: Counter_def most_common_def)
  show ?thesis
    by (simp add: analyze_conversation_nonempty analyze_conversation_final_nonempty
        str_split_examples all users)
qed

text \<open>
  C10. Both variants of \<^verbatim>\<open>analyze_conversation\<close> return \<^verbatim>\<open>None\<close> on the empty list of
  messages, before anything is computed. Neither ever raises \<^verbatim>\<open>ZeroDivisionError\<close>: when
  a bundle is produced the list of messages is not empty, the list of message lengths is
  not empty, and the division for the mean has a strictly positive divisor and succeeds.
\<close>

theorem analyze_conversation_no_zero_division:
  "analyze_conversation U analyze_sentiment [] = Inr None
   \<and> analyze_conversation_final U analyze_sentiment [] = Inr None
   \<and> analyze_conversation U analyze_sentiment messages \<noteq> Inl ZeroDivisionError
   \<and> analyze_conversation_final U analyze_sentiment messages \<noteq> Inl ZeroDivisionError
   \<and> (analyze_conversation U analyze_sentiment messages = Inr (Some a) \<longrightarrow>
        messages \<noteq> [] \<and> message_lengths a \<noteq> [] \<and> 0 < length (message_lengths a)
        \<and> truediv (sum_list (message_lengths a)) (length (message_lengths a))
            = Inr (avg_message_length a))
   \<and> (analyze_conversation_final U analyze_sentiment messages = Inr (Some b) \<longrightarrow>
        messages \<noteq> [] \<and> message_lengths_final b \<noteq> []
        \<and> 0 < length (message_lengths_final b)
        \<and> truediv (sum_list (message_lengths_final b)) (length (message_lengths_final b))
            = Inr (avg_message_length_final b))"
proof (cases "messages = []")
  case True
  then show ?thesis
    by (simp add: analyze_conversation_def analyze_conversation_final_def)
next
  case False
  have "analyze_conversation U analyze_sentiment [] = Inr None"
    and "analyze_conversation_final U analyze_sentiment [] = Inr None"
    by (simp_all add: analyze_conversation_def analyze_conversation_final_def)
  moreover have "analyze_conversation U analyze_sentiment messages \<noteq> Inl ZeroDivisionError"
    and "analyze_conversation_final U analyze_sentiment messages \<noteq> Inl ZeroDivisionError"
    using False
    by (simp_all add: analyze_conversation_nonempty analyze_conversation_final_nonempty)
  moreover have "analyze_conversation U analyze_sentiment messages = Inr (Some a) \<longrightarrow>
        messages \<noteq> [] \<and> message_lengths a \<noteq> [] \<and> 0 < length (message_lengths a)
        \<and> truediv (sum_list (message_lengths a)) (length (message_lengths a))
            = Inr (avg_message_length a)"
    using False by (auto simp add: analyze_conversation_nonempty truediv_pos)
  moreover have "analyze_conversation_final U analyze_sentiment messages = Inr (Some b) \<longrightarrow>
        messages \<noteq> [] \<and> message_lengths_final b \<noteq> []
        \<and> 0 < length (message_lengths_final b)
        \<and> truediv (sum_list (message_lengths_final b)) (length (message_lengths_final b))
            = Inr (avg_message_length_final b)"
    using False by (auto simp add: analyze_conversation_final_nonempty truediv_pos)
  ultimately show ?thesis by blast
qed

theorem analyze_conversation_no_zero_division_witness:
  "analyze_conversation \<lparr>unicode_lower = (\<lambda>s. s), unicode_word = (\<lambda>c. True), unicode_space = (\<lambda>c. False)\<rparr>
       (\<lambda>t. 0)
       [\<lparr>role = ''user'', content = ''I feel great today'', timestamp = ''09:00 AM''\<rparr>]
     = Inr (Some \<lparr>sentiment = 0, emotional_state = ''Neutral'',
                  topics = [''feel'', ''great'', ''today''], message_lengths = [4],
                  total_messages = 1, user_message_count = 1, avg_message_length = 4\<rparr>)
   \<and> analyze_conversation_final \<lparr>unicode_lower = (\<lambda>s. s), unicode_word = (\<lambda>c. True), unicode_space = (\<lambda>c. False)\<rparr>
       (\<lambda>t. 0)
       [\<lparr>role = ''user'', content = ''I feel great today'', timestamp = ''09:00 AM''\<rparr>]
     = Inr (Some \<lparr>sentiment_final = 0, topics_final = [''feel'', ''great'', ''today''],
                  message_lengths_final = [4], total_messages_final = 1,
                  avg_message_length_final = 4\<rparr>)
   \<and> truediv (sum_list [4]) (length [4 :: nat]) = Inr 4
   \<and> analyze_conversation \<lparr>unicode_lower = (\<lambda>s. s), unicode_word = (\<lambda>c. True), unicode_space = (\<lambda>c. False)\<rparr>
       (\<lambda>t. 0) [] = Inr None"
proof -
  let ?U = "\<lparr>unicode_lower = (\<lambda>s. s), unicode_word = (\<lambda>c. True), unicode_space = (\<lambda>c. False)\<rparr>"
  let ?ms = "[\<lparr>role = ''user'', content = ''I feel great today'', timestamp = ''09:00 AM''\<rparr>]"
  let ?a = "\<lparr>sentiment = 0, emotional_state = ''Neutral'',
                  topics = [''feel'', ''great'', ''today''], message_lengths = [4],
                  total_messages = 1, user_message_count = 1, avg_message_length = 4\<rparr>"
  let ?b = "\<lparr>sentiment_final = 0, topics_final = [''feel'', ''great'', ''today''],
                  message_lengths_final = [4], total_messages_final = 1,
                  avg_message_length_final = 4\<rparr>"
  have t: "extract_topics ?U ''I feel great today'' 5 = [''feel'', ''great'', ''today'']"
    unfolding extract_topics_def topic_words_one_turn
    by (simp add: Counter_def most_common_def)
  have e: "determine_emotional_state 0 = ''Neutral''"
    by (simp add: determine_emotional_state_cases)
  have a: "analyze_conversation ?U (\<lambda>t. 0) ?ms = Inr (Some ?a)"
    by (simp add: analyze_conversation_nonempty str_split_examples t e)
  have b: "analyze_conversation_final ?U (\<lambda>t. 0) ?ms = Inr (Some ?b)"
    by (simp add: analyze_conversation_final_nonempty str_split_examples t)
  from analyze_conversation_no_zero_division [of ?U "\<lambda>t. 0" ?ms ?a ?b] a b
  show ?thesis by simp
qed

section \<open>Properties of the blocking inference client\<close>

lemma send_message_exhausted:
  "MAX_RETRIES \<le> retries \<Longrightarrow>
   send_message backend messages message retries net
     = (''Error: Maximum retries reached. Please try again later.'', net)"
  by (subst send_message.simps) simp

lemma send_message_retry_step:
  assumes "retries < MAX_RETRIES"
    and "retried (backend (requests_sent net) (prompt_of messages message))"
  shows "send_message backend messages message retries net =
     send_message backend messages message (Suc retries)
       (sleep (wait_after (backend (requests_sent net) (prompt_of messages message)))
          (sent net))"
  using assms
  by (subst send_message.simps)
    (auto simp: retried_def wait_after_def split: outcome.splits)

lemma send_message_connection_error:
  assumes "retries < MAX_RETRIES"
    and "backend (requests_sent net) (prompt_of messages message) = ConnectionError"
  shows "send_message backend messages message retries net =
     (''Error: Could not connect to Ollama server. Please ensure it is running.'', sent net)"
  using assms by (subst send_message.simps) simp

lemma send_message_retry_prefix:
  assumes "\<forall>i<k. retried (backend (requests_sent net + i) (prompt_of messages message))"
    and "retries + k \<le> MAX_RETRIES"
  shows "send_message backend messages message retries net =
     send_message backend messages message (retries + k)
       \<lparr>requests_sent = requests_sent net + k,
        sleeps = sleeps net @
          map (\<lambda>i. wait_after (backend (requests_sent net + i) (prompt_of messages message)))
            [0..<k]\<rparr>"
  using assms
proof (induction k)
  case 0
  show ?case by (cases net) simp
next
  case (Suc k)
  let ?p = "prompt_of messages message"
  let ?mid = "\<lparr>requests_sent = requests_sent net + k,
        sleeps = sleeps net @ map (\<lambda>i. wait_after (backend (requests_sent net + i) ?p)) [0..<k]\<rparr>"
  have "send_message backend messages message retries net =
     send_message backend messages message (retries + k) ?mid"
    using Suc by simp
  also have "\<dots> = send_message backend messages message (Suc (retries + k))
       (sleep (wait_after (backend (requests_sent ?mid) ?p)) (sent ?mid))"
    using Suc.prems by (intro send_message_retry_step) simp_all
  finally show ?case
    by (simp add: sleep_def sent_def)
qed

lemma send_message_effects:
  "requests_sent (snd (send_message backend messages message retries net))
       \<le> requests_sent net + (MAX_RETRIES - retries)
   \<and> length (sleeps (snd (send_message backend messages message retries net)))
       \<le> length (sleeps net) + (MAX_RETRIES - retries)
   \<and> set (sleeps (snd (send_message backend messages message retries net)))
       \<subseteq> set (sleeps net) \<union> {1, 2}"
proof (induction backend messages message retries net rule: send_message.induct)
  case (1 backend messages message retries net)
  show ?case
  proof (cases "MAX_RETRIES \<le> retries")
    case True
    then show ?thesis by (auto simp add: send_message_exhausted)
  next
    case False
    show ?thesis
    proof (cases "backend (requests_sent net) (prompt_of messages message)")
      case (Response status_code body)
      show ?thesis
      proof (cases "status_code = 200")
        case True
        with False Response show ?thesis
          by (subst (1 2 3) send_message.simps)
            (auto simp: sent_def split: json_body.splits option.splits)
      next
        case ne: False
        from "1.IH"(1) [OF False Response ne] False Response ne show ?thesis
          by (subst (1 2 3) send_message.simps) (auto simp: sent_def sleep_def)
      qed
    next
      case Timeout
      from "1.IH"(2) [OF False Timeout] False Timeout show ?thesis
        by (subst (1 2 3) send_message.simps) (auto simp: sent_def sleep_def)
    next
      case ConnectionError
      with False show ?thesis
        by (subst (1 2 3) send_message.simps) (auto simp: sent_def)
    next
      case (OtherException e)
      with False show ?thesis
        by (subst (1 2 3) send_message.simps) (auto simp: sent_def)
    qed
  qed
qed

text \<open>
  C3. \<^verbatim>\<open>send_message\<close>, called as the application calls it (\<^verbatim>\<open>retries = 0\<close>), returns a
  string for every behaviour of the backend. It sends at most \<^verbatim>\<open>MAX_RETRIES\<close> = 3 requests
  and sleeps at most three times, each time for 1 or 2 time units. While the outcomes are
  a non-200 status or a timeout it sleeps (1 unit after a status, 2 units after a timeout)
  and calls itself again; when the first three requests all end so, the result is the
  maximum-retries message, after exactly three requests. When, after fewer than three
  such outcomes, a request ends with a connection error, the result is the
  could-not-connect message at once: no sleep follows and no further request is sent.
\<close>

theorem send_message_retry_policy:
  "requests_sent (snd (send_message backend messages message 0 idle)) \<le> 3
   \<and> length (sleeps (snd (send_message backend messages message 0 idle))) \<le> 3
   \<and> set (sleeps (snd (send_message backend messages message 0 idle))) \<subseteq> {1, 2}
   \<and> ((\<forall>i<3. retried (backend i (prompt_of messages message))) \<longrightarrow>
        send_message backend messages message 0 idle =
          (''Error: Maximum retries reached. Please try again later.'',
           \<lparr>requests_sent = 3,
            sleeps = map (\<lambda>i. wait_after (backend i (prompt_of messages message))) [0..<3]\<rparr>))
   \<and> (\<forall>k<3. (\<forall>i<k. retried (backend i (prompt_of messages message)))
          \<and> backend k (prompt_of messages message) = ConnectionError \<longrightarrow>
        send_message backend messages message 0 idle =
          (''Error: Could not connect to Ollama server. Please ensure it is running.'',
           \<lparr>requests_sent = k + 1,
            sleeps = map (\<lambda>i. wait_after (backend i (prompt_of messages message))) [0..<k]\<rparr>))"
proof -
  let ?p = "prompt_of messages message"
  let ?run = "send_message backend messages message 0 idle"
  have bounds: "requests_sent (snd ?run) \<le> 3 \<and> length (sleeps (snd ?run)) \<le> 3
      \<and> set (sleeps (snd ?run)) \<subseteq> {1, 2}"
    using send_message_effects [of backend messages message 0 idle]
    by (simp add: idle_def MAX_RETRIES_def)
  have exhausted: "?run = (''Error: Maximum retries reached. Please try again later.'',
           \<lparr>requests_sent = 3, sleeps = map (\<lambda>i. wait_after (backend i ?p)) [0..<3]\<rparr>)"
    if "\<forall>i<3. retried (backend i ?p)"
  proof -
    have "?run = send_message backend messages message (0 + 3)
       \<lparr>requests_sent = requests_sent idle + 3,
        sleeps = sleeps idle @ map (\<lambda>i. wait_after (backend (requests_sent idle + i) ?p)) [0..<3]\<rparr>"
      using that by (intro send_message_retry_prefix) (simp_all add: idle_def MAX_RETRIES_def)
    then show ?thesis
      by (simp add: send_message_exhausted MAX_RETRIES_def idle_def)
  qed
  have refused: "?run =
          (''Error: Could not connect to Ollama server. Please ensure it is running.'',
           \<lparr>requests_sent = k + 1, sleeps = map (\<lambda>i. wait_after (backend i ?p)) [0..<k]\<rparr>)"
    if "k < 3" and "\<forall>i<k. retried (backend i ?p)" and "backend k ?p = ConnectionError" for k
  proof -
    let ?mid = "\<lparr>requests_sent = requests_sent idle + k,
        sleeps = sleeps idle @ map (\<lambda>i. wait_after (backend (requests_sent idle + i) ?p)) [0..<k]\<rparr>"
    have "?run = send_message backend messages message (0 + k) ?mid"
      using that by (intro send_message_retry_prefix) (simp_all add: idle_def MAX_RETRIES_def)
    also have "\<dots> = (''Error: Could not connect to Ollama server. Please ensure it is running.'',
        sent ?mid)"
      using that by (intro send_message_connection_error) (simp_all add: idle_def MAX_RETRIES_def)
    finally show ?thesis
      by (simp add: sent_def idle_def)
  qed
  from bounds exhausted refused show ?thesis
    by blast
qed

theorem send_message_retry_policy_witness:
  "send_message (\<lambda>n p. if n = 1 then Response 503 (JsonRaises []) else Timeout)
        [] ''hello'' 0 idle
      = (''Error: Maximum retries reached. Please try again later.'',
         \<lparr>requests_sent = 3, sleeps = [2, 1, 2]\<rparr>)
   \<and> send_message (\<lambda>n p. if n = 1 then ConnectionError else Timeout) [] ''hello'' 0 idle
      = (''Error: Could not connect to Ollama server. Please ensure it is running.'',
         \<lparr>requests_sent = 2, sleeps = [2]\<rparr>)
   \<and> send_message (\<lambda>n p. ConnectionError) [] ''hello'' 0 idle
      = (''Error: Could not connect to Ollama server. Please ensure it is running.'',
         \<lparr>requests_sent = 1, sleeps = []\<rparr>)"
proof -
  let ?b1 = "\<lambda>(n :: nat) (p :: string). if n = 1 then Response 503 (JsonRaises []) else Timeout"
  let ?b2 = "\<lambda>(n :: nat) (p :: string). if n = 1 then ConnectionError else Timeout"
  let ?b3 = "\<lambda>(n :: nat) (p :: string). ConnectionError"
  have h1: "\<forall>i<3. retried (?b1 i (prompt_of [] ''hello''))"
    by (simp add: retried_def)
  have h2: "\<forall>i<1. retried (?b2 i (prompt_of [] ''hello''))"
    by (simp add: retried_def)
  have u: "[0..<3] = [0, 1, 2]" "[0..<1] = [0]"
    by (simp_all add: upt_rec)
  from send_message_retry_policy [of ?b1 "[]" "''hello''"] h1
  have r1: "send_message ?b1 [] ''hello'' 0 idle
      = (''Error: Maximum retries reached. Please try again later.'',
         \<lparr>requests_sent = 3, sleeps = [2, 1, 2]\<rparr>)"
    by (simp add: u wait_after_def)
  from send_message_retry_policy [of ?b2 "[]" "''hello''"] h2
  have r2: "send_message ?b2 [] ''hello'' 0 idle
      = (''Error: Could not connect to Ollama server. Please ensure it is running.'',
         \<lparr>requests_sent = 2, sleeps = [2]\<rparr>)"
    by (elim conjE allE [of _ "1 :: nat"]) (simp add: u wait_after_def retried_def)
  from send_message_retry_policy [of ?b3 "[]" "''hello''"]
  have r3: "send_message ?b3 [] ''hello'' 0 idle
      = (''Error: Could not connect to Ollama server. Please ensure it is running.'',
         \<lparr>requests_sent = 1, sleeps = []\<rparr>)"
    by (elim conjE allE [of _ "0 :: nat"]) simp
  from r1 r2 r3 show ?thesis by simp
qed

section \<open>Properties of the conversation store\<close>

text \<open>
  C5 (as the code has it). \<^verbatim>\<open>update_conversation_analysis\<close> does not look the
  conversation up and has no failure result: for a conversation id that is not in the
  store its \<^verbatim>\<open>UPDATE\<close> matches no row, and it returns normally with the store exactly as
  it was.
\<close>

theorem update_unknown_conversation_unchanged:
  "conversation_id \<notin> conv_id ` set (conversations_table db) \<Longrightarrow>
     update_conversation_analysis db conversation_id sentiment' topics' = db"
proof -
  assume absent: "conversation_id \<notin> conv_id ` set (conversations_table db)"
  have "map (\<lambda>row. if conv_id row = conversation_id
                      then row\<lparr>conv_sentiment := Some sentiment', conv_topics := Some topics'\<rparr>
                      else row) (conversations_table db) = conversations_table db"
    using absent by (intro map_idI) auto
  then show ?thesis
    by (simp add: update_conversation_analysis_def)
qed

theorem update_unknown_conversation_unchanged_witness:
  "(7 :: int) \<notin> conv_id ` set (conversations_table (snd (start_new_conversation empty_database ''s'' 0)))
   \<and> update_conversation_analysis (snd (start_new_conversation empty_database ''s'' 0)) 7 0.5 [''work'']
       = snd (start_new_conversation empty_database ''s'' 0)
   \<and> conversations_table (snd (start_new_conversation empty_database ''s'' 0))
       = [\<lparr>conv_id = 1, conv_session_id = ''s'', conv_timestamp = 0, conv_sentiment = None,
           conv_topics = None\<rparr>]"
proof -
  let ?db = "snd (start_new_conversation empty_database ''s'' 0)"
  have absent: "(7 :: int) \<notin> conv_id ` set (conversations_table ?db)"
    by (simp add: start_new_conversation_def empty_database_def)
  from update_unknown_conversation_unchanged [OF absent, of "0.5" "[''work'']"] absent
  show ?thesis
    by (simp add: start_new_conversation_def empty_database_def)
qed

text \<open>
  C5 (as the spec states it) fails: in the empty store there is no conversation 7, yet
  \<^verbatim>\<open>update_conversation_analysis\<close> for conversation 7 returns the store instead of
  failing, and \<^verbatim>\<open>add_message\<close> for conversation 7, run on a connection that does not
  enforce the foreign key, returns a store with the row in it.
\<close>

theorem unknown_conversation_counterexample:
  "(7 :: int) \<notin> conv_id ` set (conversations_table empty_database)
   \<and> messages_table (add_message empty_database 7 ''user'' ''hello'' 0)
       = [\<lparr>msg_id = 1, msg_conversation_id = 7, msg_role = ''user'', msg_content = ''hello'',
           msg_timestamp = 0\<rparr>]
   \<and> messages_table (add_message empty_database 7 ''user'' ''hello'' 0)
       \<noteq> messages_table empty_database
   \<and> update_conversation_analysis empty_database 7 0.5 [''work''] = empty_database"
  by (simp add: add_message_def update_conversation_analysis_def empty_database_def)

lemma insort_key_append_last:
  "\<forall>b\<in>set bs. f a \<le> f b \<Longrightarrow> insort_key f a (xs @ bs) = insort_key f a xs @ bs"
proof (induction xs)
  case Nil
  then show ?case by (cases bs) simp_all
next
  case (Cons x xs)
  then show ?case by simp
qed

lemma sort_key_append_last:
  "\<forall>a\<in>set as. f a \<le> f b \<Longrightarrow> sort_key f (as @ [b]) = sort_key f as @ [b]"
proof (induction as)
  case Nil
  show ?case by simp
next
  case (Cons a as)
  then have "sort_key f (as @ [b]) = sort_key f as @ [b]" by simp
  moreover have "insort_key f a (sort_key f as @ [b]) = insort_key f a (sort_key f as) @ [b]"
    using Cons.prems by (intro insort_key_append_last) simp
  ultimately show ?case by simp
qed

lemma get_conversation_history_add_message:
  assumes "\<forall>row\<in>set (messages_table db). msg_timestamp row \<le> now"
  shows "get_conversation_history (add_message db cid role' content' now) conversation_id =
     (if cid = conversation_id
      then get_conversation_history db conversation_id @
             [\<lparr>entry_role = role', entry_content = content', entry_timestamp = now\<rparr>]
      else get_conversation_history db conversation_id)"
proof (cases "cid = conversation_id")
  case True
  let ?rows = "filter (\<lambda>row. msg_conversation_id row = conversation_id) (messages_table db)"
  let ?new = "\<lparr>msg_id = messages_seq db + 1, msg_conversation_id = cid,
             msg_role = role', msg_content = content', msg_timestamp = now\<rparr>"
  have "\<forall>a\<in>set ?rows. msg_timestamp a \<le> msg_timestamp ?new"
    using assms by simp
  then have "sort_key msg_timestamp (?rows @ [?new]) = sort_key msg_timestamp ?rows @ [?new]"
    by (rule sort_key_append_last)
  with True show ?thesis
    by (simp add: get_conversation_history_def add_message_def)
next
  case False
  then show ?thesis
    by (simp add: get_conversation_history_def add_message_def)
qed

lemma get_conversation_history_add_messages:
  assumes "sorted (map call_now calls)"
    and "\<forall>row\<in>set (messages_table db). \<forall>c\<in>set calls. msg_timestamp row \<le> call_now c"
  shows "get_conversation_history (add_messages db calls) conversation_id =
     get_conversation_history db conversation_id @
       map (\<lambda>c. \<lparr>entry_role = call_role c, entry_content = call_content c,
                  entry_timestamp = call_now c\<rparr>)
         (filter (\<lambda>c. call_conversation_id c = conversation_id) calls)"
  using assms
proof (induction calls arbitrary: db)
  case Nil
  show ?case by simp
next
  case (Cons c calls)
  let ?db = "add_message db (call_conversation_id c) (call_role c) (call_content c) (call_now c)"
  have before: "\<forall>row\<in>set (messages_table db). msg_timestamp row \<le> call_now c"
    using Cons.prems(2) by simp
  have later: "\<forall>c'\<in>set calls. call_now c \<le> call_now c'"
    using Cons.prems(1) by simp
  have "\<forall>row\<in>set (messages_table ?db). \<forall>c'\<in>set calls. msg_timestamp row \<le> call_now c'"
    using Cons.prems(2) later by (auto simp: add_message_def)
  moreover have "sorted (map call_now calls)"
    using Cons.prems(1) by simp
  ultimately have "get_conversation_history (add_messages ?db calls) conversation_id =
     get_conversation_history ?db conversation_id @
       map (\<lambda>c. \<lparr>entry_role = call_role c, entry_content = call_content c,
                  entry_timestamp = call_now c\<rparr>)
         (filter (\<lambda>c. call_conversation_id c = conversation_id) calls)"
    by (intro Cons.IH)
  then show ?case
    by (simp add: get_conversation_history_add_message [OF before])
qed

lemma sorted_get_conversation_history:
  "sorted (map entry_timestamp (get_conversation_history db conversation_id))"
proof -
  have "map entry_timestamp (get_conversation_history db conversation_id) =
      map msg_timestamp (sort_key msg_timestamp
          (filter (\<lambda>row. msg_conversation_id row = conversation_id) (messages_table db)))"
    by (simp add: get_conversation_history_def comp_def)
  then show ?thesis
    by simp
qed

text \<open>
  C6 (as the code has it). \<^verbatim>\<open>get_conversation_history\<close> orders by timestamp, not by
  insertion. Whatever calls of \<^verbatim>\<open>add_message\<close> ran, the timestamps read back are
  non-decreasing. When the timestamps of the insertions do not decrease (the reading of
  the database clock at each call is not before that of the call before it, nor before a
  timestamp already stored), then for every conversation reading its turns back gives
  what was read before followed by the \<^verbatim>\<open>{role, content}\<close> pairs appended to that
  conversation, in the order of the calls; for a conversation without earlier turns this is
  exactly the appended sequence.
\<close>

theorem conversation_history_round_trip:
  "sorted (map entry_timestamp
     (get_conversation_history (add_messages db calls) conversation_id))
   \<and> (sorted (map call_now calls)
        \<and> (\<forall>row\<in>set (messages_table db). \<forall>c\<in>set calls. msg_timestamp row \<le> call_now c)
       \<longrightarrow>
         map (\<lambda>e. (entry_role e, entry_content e))
           (get_conversation_history (add_messages db calls) conversation_id)
         = map (\<lambda>e. (entry_role e, entry_content e))
             (get_conversation_history db conversation_id)
           @ turns_for conversation_id calls
         \<and> (get_conversation_history db conversation_id = [] \<longrightarrow>
              map (\<lambda>e. (entry_role e, entry_content e))
                (get_conversation_history (add_messages db calls) conversation_id)
              = turns_for conversation_id calls))"
proof (intro conjI impI)
  show "sorted (map entry_timestamp
     (get_conversation_history (add_messages db calls) conversation_id))"
    by (rule sorted_get_conversation_history)
next
  assume clock: "sorted (map call_now calls)
        \<and> (\<forall>row\<in>set (messages_table db). \<forall>c\<in>set calls. msg_timestamp row \<le> call_now c)"
  then have s: "sorted (map call_now calls)"
    and b: "\<forall>row\<in>set (messages_table db). \<forall>c\<in>set calls. msg_timestamp row \<le> call_now c"
    by simp_all
  show all: "map (\<lambda>e. (entry_role e, entry_content e))
           (get_conversation_history (add_messages db calls) conversation_id)
         = map (\<lambda>e. (entry_role e, entry_content e))
             (get_conversation_history db conversation_id)
           @ turns_for conversation_id calls"
    by (simp add: get_conversation_history_add_messages [OF s b] turns_for_def comp_def)
  assume "get_conversation_history db conversation_id = []"
  with all show "map (\<lambda>e. (entry_role e, entry_content e))
                (get_conversation_history (add_messages db calls) conversation_id)
              = turns_for conversation_id calls"
    by simp
qed

theorem conversation_history_round_trip_witness:
  "sorted (map call_now
      [\<lparr>call_conversation_id = 1, call_role = ''user'', call_content = ''hello'', call_now = 5\<rparr>,
       \<lparr>call_conversation_id = 2, call_role = ''user'', call_content = ''other'', call_now = 5\<rparr>,
       \<lparr>call_conversation_id = 1, call_role = ''assistant'', call_content = ''hi there'',
         call_now = 5\<rparr>,
       \<lparr>call_conversation_id = 1, call_role = ''user'', call_content = ''bye'', call_now = 9\<rparr>])
   \<and> map (\<lambda>e. (entry_role e, entry_content e))
        (get_conversation_history
           (add_messages (add_message empty_database 2 ''user'' ''earlier'' 4)
              [\<lparr>call_conversation_id = 1, call_role = ''user'', call_content = ''hello'',
                 call_now = 5\<rparr>,
               \<lparr>call_conversation_id = 2, call_role = ''user'', call_content = ''other'',
                 call_now = 5\<rparr>,
               \<lparr>call_conversation_id = 1, call_role = ''assistant'',
                 call_content = ''hi there'', call_now = 5\<rparr>,
               \<lparr>call_conversation_id = 1, call_role = ''user'', call_content = ''bye'',
                 call_now = 9\<rparr>]) 1)
      = [(''user'', ''hello''), (''assistant'', ''hi there''), (''user'', ''bye'')]"
proof -
  let ?calls = "[\<lparr>call_conversation_id = 1, call_role = ''user'', call_content = ''hello'',
                 call_now = 5\<rparr>,
               \<lparr>call_conversation_id = 2, call_role = ''user'', call_content = ''other'',
                 call_now = 5\<rparr>,
               \<lparr>call_conversation_id = 1, call_role = ''assistant'',
                 call_content = ''hi there'', call_now = 5\<rparr>,
               \<lparr>call_conversation_id = 1, call_role = ''user'', call_content = ''bye'',
                 call_now = 9\<rparr>]"
  let ?db = "add_message empty_database 2 ''user'' ''earlier'' 4"
  have s: "sorted (map call_now ?calls)"
    by simp
  have b: "\<forall>row\<in>set (messages_table ?db). \<forall>c\<in>set ?calls. msg_timestamp row \<le> call_now c"
    by (simp add: add_message_def empty_database_def)
  have e: "get_conversation_history ?db 1 = []"
    by (simp add: get_conversation_history_def add_message_def empty_database_def)
  from conversation_history_round_trip [of ?db ?calls 1] e s b
  show ?thesis
    by (simp add: turns_for_def)
qed

text \<open>
  C6 (as the spec states it) fails when a later insertion gets an earlier timestamp: the
  user turn is appended at clock reading 5 and the assistant turn after it at clock reading
  3, and the assistant turn is read back first.
\<close>

theorem conversation_history_clock_counterexample:
  "map (\<lambda>e. (entry_role e, entry_content e))
     (get_conversation_history
        (add_messages empty_database
           [\<lparr>call_conversation_id = 1, call_role = ''user'', call_content = ''first'',
              call_now = 5\<rparr>,
            \<lparr>call_conversation_id = 1, call_role = ''assistant'', call_content = ''second'',
              call_now = 3\<rparr>]) 1)
   = [(''assistant'', ''second''), (''user'', ''first'')]
   \<and> turns_for 1
        [\<lparr>call_conversation_id = 1, call_role = ''user'', call_content = ''first'',
           call_now = 5\<rparr>,
         \<lparr>call_conversation_id = 1, call_role = ''assistant'', call_content = ''second'',
           call_now = 3\<rparr>]
   = [(''user'', ''first''), (''assistant'', ''second'')]
   \<and> map (\<lambda>e. (entry_role e, entry_content e))
        (get_conversation_history
           (add_messages empty_database
              [\<lparr>call_conversation_id = 1, call_role = ''user'', call_content = ''first'',
                 call_now = 5\<rparr>,
               \<lparr>call_conversation_id = 1, call_role = ''assistant'',
                 call_content = ''second'', call_now = 3\<rparr>]) 1)
   \<noteq> turns_for 1
        [\<lparr>call_conversation_id = 1, call_role = ''user'', call_content = ''first'',
           call_now = 5\<rparr>,
         \<lparr>call_conversation_id = 1, call_role = ''assistant'', call_content = ''second'',
           call_now = 3\<rparr>]"
  by (simp add: get_conversation_history_def add_message_def empty_database_def turns_for_def)


section \<open>Properties of the streaming client and the chat page\<close>

lemma iter_lines_loop_prefix:
  assumes "k \<le> length lines"
    and "\<forall>i<k. \<not> (stop_button \<or> flag (n + i)) \<and> well_formed (lines ! i)"
  shows "\<exists>shown'. iter_lines_loop stop_button flag n lines acc shown =
     iter_lines_loop stop_button flag (n + k) (drop k lines) (acc @ tokens (take k lines)) shown'"
  using assms
proof (induction lines arbitrary: k n acc shown)
  case Nil
  then show ?case by simp
next
  case (Cons line rest)
  show ?case
  proof (cases k)
    case 0
    then show ?thesis by (intro exI [of _ shown]) simp
  next
    case (Suc j)
    have j: "j \<le> length rest"
      using Cons.prems(1) Suc by simp
    have rest: "\<forall>i<j. \<not> (stop_button \<or> flag (Suc n + i)) \<and> well_formed (rest ! i)"
    proof (intro allI impI)
      fix i assume "i < j"
      then have "Suc i < k" using Suc by simp
      with Cons.prems(2) have "\<not> (stop_button \<or> flag (n + Suc i)) \<and> well_formed ((line # rest) ! Suc i)"
        by blast
      then show "\<not> (stop_button \<or> flag (Suc n + i)) \<and> well_formed (rest ! i)"
        by simp
    qed
    have first: "\<not> (stop_button \<or> flag n) \<and> well_formed line"
      using Cons.prems(2) Suc by force
    show ?thesis
    proof (cases line)
      case EmptyLine
      from Cons.IH [OF j rest, of acc shown] EmptyLine first Suc show ?thesis
        by simp
    next
      case (JsonLine json_response)
      let ?token = "case json_response of Some t \<Rightarrow> t | None \<Rightarrow> ''''"
      from Cons.IH [OF j rest, of "acc @ [?token]" "shown @ [concat (acc @ [?token])]"]
        JsonLine first Suc
      show ?thesis by (simp add: Let_def)
    next
      case (BadLine e)
      with first show ?thesis by simp
    qed
  qed
qed

lemma stream_response_reply_session:
  "fst (stream_response backend stop_button flag message sess)
     = fst (stream_response backend stop_button flag message sess')"
  by (simp add: stream_response_def split: post_outcome.splits prod.splits loop_exit.splits
      stream_end.splits)

lemma stream_response_session:
  "session_messages (snd (snd (stream_response backend stop_button flag message sess)))
     = session_messages sess
   \<and> session_conversation_id (snd (snd (stream_response backend stop_button flag message sess)))
     = session_conversation_id sess"
  by (simp add: stream_response_def split: post_outcome.splits prod.splits loop_exit.splits
      stream_end.splits)

lemma display_chat_page_submit:
  assumes "env_ollama_running env" and "env_user_input env = Some user_input"
    and "user_input \<noteq> []"
  shows "session_messages (fst (display_chat_page env sess db)) =
     session_messages sess @
       [\<lparr>role = ''user'', content = user_input, timestamp = env_display_time env\<rparr>,
        \<lparr>role = ''assistant'',
         content = fst (stream_response (env_backend env) (env_stop_button env)
                          (env_stop_flag env) user_input sess),
         timestamp = env_display_time env\<rparr>]"
    and "messages_table (snd (display_chat_page env sess db)) =
     messages_table db @
       [\<lparr>msg_id = messages_seq db + 1, msg_conversation_id = session_conversation_id sess,
         msg_role = ''user'', msg_content = user_input, msg_timestamp = env_clock_user env\<rparr>,
        \<lparr>msg_id = messages_seq db + 2, msg_conversation_id = session_conversation_id sess,
         msg_role = ''assistant'',
         msg_content = fst (stream_response (env_backend env) (env_stop_button env)
                              (env_stop_flag env) user_input sess),
         msg_timestamp = env_clock_assistant env\<rparr>]"
proof -
  let ?sess2 = "sess\<lparr>session_model_ready := True,
      session_messages := session_messages sess @
        [\<lparr>role = ''user'', content = user_input, timestamp = env_display_time env\<rparr>]\<rparr>"
  let ?r = "stream_response (env_backend env) (env_stop_button env) (env_stop_flag env)
      user_input ?sess2"
  have reply: "fst ?r = fst (stream_response (env_backend env) (env_stop_button env)
      (env_stop_flag env) user_input sess)"
    by (rule stream_response_reply_session)
  have kept: "session_messages (snd (snd ?r)) = session_messages ?sess2"
    "session_conversation_id (snd (snd ?r)) = session_conversation_id ?sess2"
    using stream_response_session [of "env_backend env" "env_stop_button env"
        "env_stop_flag env" user_input ?sess2]
    by simp_all
  show "session_messages (fst (display_chat_page env sess db)) =
     session_messages sess @
       [\<lparr>role = ''user'', content = user_input, timestamp = env_display_time env\<rparr>,
        \<lparr>role = ''assistant'',
         content = fst (stream_response (env_backend env) (env_stop_button env)
                          (env_stop_flag env) user_input sess),
         timestamp = env_display_time env\<rparr>]"
    using assms kept reply
    by (simp add: display_chat_page_def Let_def case_prod_beta)
  show "messages_table (snd (display_chat_page env sess db)) =
     messages_table db @
       [\<lparr>msg_id = messages_seq db + 1, msg_conversation_id = session_conversation_id sess,
         msg_role = ''user'', msg_content = user_input, msg_timestamp = env_clock_user env\<rparr>,
        \<lparr>msg_id = messages_seq db + 2, msg_conversation_id = session_conversation_id sess,
         msg_role = ''assistant'',
         msg_content = fst (stream_response (env_backend env) (env_stop_button env)
                              (env_stop_flag env) user_input sess),
         msg_timestamp = env_clock_assistant env\<rparr>]"
    using assms kept reply
    by (simp add: display_chat_page_def Let_def case_prod_beta save_message_def add_message_def)
qed

lemma stream_response_stopped:
  assumes "backend (message @ PROMPT_SUFFIX) = Streaming lines ending"
    and "k < length lines"
    and "\<forall>i<k. \<not> (stop_button \<or> flag i) \<and> well_formed (lines ! i)"
    and "stop_button \<or> flag k"
  shows "fst (stream_response backend stop_button flag message sess)
           = concat (tokens (take k lines))
       \<and> \<not> session_stop_generation
            (snd (snd (stream_response backend stop_button flag message sess)))"
proof -
  from assms(2) obtain line rest where d: "drop k lines = line # rest"
    by (cases "drop k lines") simp_all
  from iter_lines_loop_prefix [of k lines stop_button flag 0 "[]" "[]"] assms(2,3)
  obtain shown' where "iter_lines_loop stop_button flag 0 lines [] [] =
     iter_lines_loop stop_button flag k (drop k lines) (tokens (take k lines)) shown'"
    by auto
  then have "iter_lines_loop stop_button flag 0 lines [] [] =
      (Stopped, tokens (take k lines), shown')"
    using assms(4) d by simp
  then show ?thesis
    by (simp add: stream_response_def assms(1))
qed

lemma stream_response_raised:
  assumes "backend (message @ PROMPT_SUFFIX) = Streaming lines ending"
    and "k < length lines"
    and "\<forall>i<k. \<not> (stop_button \<or> flag i) \<and> well_formed (lines ! i)"
    and "\<not> (stop_button \<or> flag k)" and "lines ! k = BadLine e"
  shows "fst (stream_response backend stop_button flag message sess) = ''Error: '' @ e"
proof -
  from assms(2,5) obtain rest where d: "drop k lines = BadLine e # rest"
    by (metis Cons_nth_drop_Suc)
  from iter_lines_loop_prefix [of k lines stop_button flag 0 "[]" "[]"] assms(2,3)
  obtain shown' where "iter_lines_loop stop_button flag 0 lines [] [] =
     iter_lines_loop stop_button flag k (drop k lines) (tokens (take k lines)) shown'"
    by auto
  then have "iter_lines_loop stop_button flag 0 lines [] [] =
      (Raised e, tokens (take k lines), shown')"
    using assms(4) d by simp
  then show ?thesis
    by (simp add: stream_response_def assms(1))
qed

lemma stream_response_exhausted:
  assumes "backend (message @ PROMPT_SUFFIX) = Streaming lines ending"
    and "\<forall>i<length lines. \<not> (stop_button \<or> flag i) \<and> well_formed (lines ! i)"
  shows "fst (stream_response backend stop_button flag message sess) =
     (case ending of EndOfStream \<Rightarrow> concat (tokens lines) | StreamRaises e \<Rightarrow> ''Error: '' @ e)"
proof -
  from iter_lines_loop_prefix [of "length lines" lines stop_button flag 0 "[]" "[]"] assms(2)
  obtain shown' where "iter_lines_loop stop_button flag 0 lines [] [] =
     iter_lines_loop stop_button flag (length lines) (drop (length lines) lines)
       (tokens (take (length lines) lines)) shown'"
    by auto
  then have "iter_lines_loop stop_button flag 0 lines [] [] = (Exhausted, tokens lines, shown')"
    by simp
  then show ?thesis
    by (simp add: stream_response_def assms(1) split: stream_end.splits)
qed

text \<open>
  C4. In one run of the chat page with a user input, let the backend open a stream, and
  let the stop check (the button or the flag) be clear at the first \<open>k\<close> checks and set at
  check \<open>k\<close>, the first \<open>k\<close> lines being consumed without an exception and a further line
  having arrived. The check comes before that line is consumed, so
  \<^verbatim>\<open>stream_response\<close> returns, as a normal reply, exactly the concatenation of the
  tokens of the first \<open>k\<close> lines, whatever the stream holds after them. The run appends
  the assistant turn with this partial text to the session and inserts it into the
  messages of the store, after the user turn.
\<close>

theorem stream_response_cancellation:
  assumes "env_ollama_running env" and "env_user_input env = Some user_input"
    and "user_input \<noteq> []"
    and "env_backend env (user_input @ PROMPT_SUFFIX) = Streaming lines ending"
    and "k < length lines"
    and "\<forall>i<k. \<not> (env_stop_button env \<or> env_stop_flag env i) \<and> well_formed (lines ! i)"
    and "env_stop_button env \<or> env_stop_flag env k"
  shows "fst (stream_response (env_backend env) (env_stop_button env) (env_stop_flag env)
                user_input sess)
           = concat (tokens (take k lines))
       \<and> session_messages (fst (display_chat_page env sess db)) =
           session_messages sess @
             [\<lparr>role = ''user'', content = user_input, timestamp = env_display_time env\<rparr>,
              \<lparr>role = ''assistant'', content = concat (tokens (take k lines)),
               timestamp = env_display_time env\<rparr>]
       \<and> messages_table (snd (display_chat_page env sess db)) =
           messages_table db @
             [\<lparr>msg_id = messages_seq db + 1,
               msg_conversation_id = session_conversation_id sess,
               msg_role = ''user'', msg_content = user_input,
               msg_timestamp = env_clock_user env\<rparr>,
              \<lparr>msg_id = messages_seq db + 2,
               msg_conversation_id = session_conversation_id sess,
               msg_role = ''assistant'', msg_content = concat (tokens (take k lines)),
               msg_timestamp = env_clock_assistant env\<rparr>]"
proof -
  have "fst (stream_response (env_backend env) (env_stop_button env) (env_stop_flag env)
                user_input sess)
           = concat (tokens (take k lines))"
    using stream_response_stopped
      [where backend = "env_backend env" and stop_button = "env_stop_button env"
        and flag = "env_stop_flag env", OF assms(4-7)]
    by simp
  with display_chat_page_submit [OF assms(1-3), of sess db] show ?thesis
    by simp
qed

theorem stream_response_cancellation_witness:
  "display_chat_page
     \<lparr>env_ollama_running = True, env_user_input = Some ''I feel great today'',
      env_display_time = ''09:00 AM'',
      env_backend = (\<lambda>prompt. Streaming
         [JsonLine (Some ''I'm''), JsonLine (Some '' glad''), JsonLine (Some '' to hear that.'')]
         EndOfStream),
      env_stop_button = False, env_stop_flag = (\<lambda>i. i = 1),
      env_clock_user = 10, env_clock_assistant = 12\<rparr>
     \<lparr>session_messages = [], session_model_ready = False, session_current_response = '''',
      session_conversation_id = 1, session_page = ''chat'', session_stop_generation = False\<rparr>
     (snd (start_new_conversation empty_database ''session-1'' 9))
   = (\<lparr>session_messages =
          [\<lparr>role = ''user'', content = ''I feel great today'', timestamp = ''09:00 AM''\<rparr>,
           \<lparr>role = ''assistant'', content = ''I'm'', timestamp = ''09:00 AM''\<rparr>],
        session_model_ready = True, session_current_response = '''',
        session_conversation_id = 1, session_page = ''chat'', session_stop_generation = False\<rparr>,
      \<lparr>conversations_table =
          [\<lparr>conv_id = 1, conv_session_id = ''session-1'', conv_timestamp = 9,
            conv_sentiment = None, conv_topics = None\<rparr>],
        messages_table =
          [\<lparr>msg_id = 1, msg_conversation_id = 1, msg_role = ''user'',
            msg_content = ''I feel great today'', msg_timestamp = 10\<rparr>,
           \<lparr>msg_id = 2, msg_conversation_id = 1, msg_role = ''assistant'',
            msg_content = ''I'm'', msg_timestamp = 12\<rparr>],
        conversations_seq = 1, messages_seq = 2\<rparr>)"
proof -
  let ?lines = "[JsonLine (Some ''I'm''), JsonLine (Some '' glad''),
    JsonLine (Some '' to hear that.'')]"
  let ?env = "\<lparr>env_ollama_running = True, env_user_input = Some ''I feel great today'',
      env_display_time = ''09:00 AM'',
      env_backend = (\<lambda>prompt. Streaming ?lines EndOfStream),
      env_stop_button = False, env_stop_flag = (\<lambda>i. i = 1),
      env_clock_user = 10, env_clock_assistant = 12\<rparr>"
  let ?sess = "\<lparr>session_messages = [], session_model_ready = False,
      session_current_response = '''', session_conversation_id = 1, session_page = ''chat'',
      session_stop_generation = False\<rparr>"
  let ?db = "snd (start_new_conversation empty_database ''session-1'' 9)"
  have h1: "env_ollama_running ?env" by simp
  have h2: "env_user_input ?env = Some ''I feel great today''" by simp
  have h3: "''I feel great today'' \<noteq> []" by simp
  have h4: "env_backend ?env (''I feel great today'' @ PROMPT_SUFFIX)
      = Streaming ?lines EndOfStream" by simp
  have h5: "1 < length ?lines" by simp
  have h6: "\<forall>i<1. \<not> (env_stop_button ?env \<or> env_stop_flag ?env i) \<and> well_formed (?lines ! i)"
    by simp
  have h7: "env_stop_button ?env \<or> env_stop_flag ?env 1" by simp
  from stream_response_cancellation [OF h1 h2 h3 h4 h5 h6 h7, of ?sess ?db]
  have "session_messages (fst (display_chat_page ?env ?sess ?db)) =
          [\<lparr>role = ''user'', content = ''I feel great today'', timestamp = ''09:00 AM''\<rparr>,
           \<lparr>role = ''assistant'', content = ''I'm'', timestamp = ''09:00 AM''\<rparr>]"
    and "messages_table (snd (display_chat_page ?env ?sess ?db)) =
          [\<lparr>msg_id = 1, msg_conversation_id = 1, msg_role = ''user'',
            msg_content = ''I feel great today'', msg_timestamp = 10\<rparr>,
           \<lparr>msg_id = 2, msg_conversation_id = 1, msg_role = ''assistant'',
            msg_content = ''I'm'', msg_timestamp = 12\<rparr>]"
    by (simp_all add: start_new_conversation_def empty_database_def)
  moreover have "display_chat_page ?env ?sess ?db =
      (fst (display_chat_page ?env ?sess ?db)
         \<lparr>session_messages := session_messages (fst (display_chat_page ?env ?sess ?db))\<rparr>,
       snd (display_chat_page ?env ?sess ?db)
         \<lparr>messages_table := messages_table (snd (display_chat_page ?env ?sess ?db))\<rparr>)"
    by simp
  moreover have "fst (display_chat_page ?env ?sess ?db)\<lparr>session_messages := ms\<rparr> =
      \<lparr>session_messages = ms, session_model_ready = True, session_current_response = '''',
        session_conversation_id = 1, session_page = ''chat'',
        session_stop_generation = False\<rparr>" for ms
    by (simp add: display_chat_page_def stream_response_def Let_def)
  moreover have "snd (display_chat_page ?env ?sess ?db)\<lparr>messages_table := rows\<rparr> =
      \<lparr>conversations_table =
          [\<lparr>conv_id = 1, conv_session_id = ''session-1'', conv_timestamp = 9,
            conv_sentiment = None, conv_topics = None\<rparr>],
        messages_table = rows, conversations_seq = 1, messages_seq = 2\<rparr>" for rows
    by (simp add: display_chat_page_def stream_response_def Let_def save_message_def
        add_message_def start_new_conversation_def empty_database_def)
  ultimately show ?thesis
    by metis
qed

text \<open>
  C9. In one run of the chat page with a user input, whatever the backend does, the run
  returns a session and a store: the user turn and the assistant turn are appended to the
  session and inserted into the store, the assistant turn holding the string that
  \<^verbatim>\<open>stream_response\<close> returned. When the request raises, or the stream breaks with an
  exception after its lines were consumed, or a line raises while it is handled (no stop
  having been seen before), that string is \<^verbatim>\<open>"Error: "\<close> followed by the text of the
  exception, so this error text is the content of the stored assistant turn.
\<close>

theorem display_chat_page_backend_failure:
  assumes "env_ollama_running env" and "env_user_input env = Some user_input"
    and "user_input \<noteq> []"
  shows "session_messages (fst (display_chat_page env sess db)) =
           session_messages sess @
             [\<lparr>role = ''user'', content = user_input, timestamp = env_display_time env\<rparr>,
              \<lparr>role = ''assistant'',
               content = fst (stream_response (env_backend env) (env_stop_button env)
                                (env_stop_flag env) user_input sess),
               timestamp = env_display_time env\<rparr>]
       \<and> messages_table (snd (display_chat_page env sess db)) =
           messages_table db @
             [\<lparr>msg_id = messages_seq db + 1,
               msg_conversation_id = session_conversation_id sess,
               msg_role = ''user'', msg_content = user_input,
               msg_timestamp = env_clock_user env\<rparr>,
              \<lparr>msg_id = messages_seq db + 2,
               msg_conversation_id = session_conversation_id sess,
               msg_role = ''assistant'',
               msg_content = fst (stream_response (env_backend env) (env_stop_button env)
                                    (env_stop_flag env) user_input sess),
               msg_timestamp = env_clock_assistant env\<rparr>]
       \<and> (env_backend env (user_input @ PROMPT_SUFFIX) = PostRaises e
            \<or> (env_backend env (user_input @ PROMPT_SUFFIX) = Streaming lines (StreamRaises e)
                \<and> (\<forall>i<length lines. \<not> (env_stop_button env \<or> env_stop_flag env i)
                      \<and> well_formed (lines ! i)))
            \<or> (env_backend env (user_input @ PROMPT_SUFFIX) = Streaming lines ending
                \<and> k < length lines \<and> lines ! k = BadLine e
                \<and> (\<forall>i<k. \<not> (env_stop_button env \<or> env_stop_flag env i)
                      \<and> well_formed (lines ! i))
                \<and> \<not> (env_stop_button env \<or> env_stop_flag env k))
            \<longrightarrow> fst (stream_response (env_backend env) (env_stop_button env)
                       (env_stop_flag env) user_input sess) = ''Error: '' @ e)"
proof -
  let ?reply = "fst (stream_response (env_backend env) (env_stop_button env)
                       (env_stop_flag env) user_input sess)"
  have post: "?reply = ''Error: '' @ e"
    if "env_backend env (user_input @ PROMPT_SUFFIX) = PostRaises e"
    using that by (simp add: stream_response_def)
  have broken: "?reply = ''Error: '' @ e"
    if "env_backend env (user_input @ PROMPT_SUFFIX) = Streaming lines (StreamRaises e)"
      and "\<forall>i<length lines. \<not> (env_stop_button env \<or> env_stop_flag env i)
                      \<and> well_formed (lines ! i)"
    using stream_response_exhausted
      [where backend = "env_backend env" and stop_button = "env_stop_button env"
        and flag = "env_stop_flag env" and sess = sess, OF that]
    by simp
  have bad: "?reply = ''Error: '' @ e"
    if "env_backend env (user_input @ PROMPT_SUFFIX) = Streaming lines ending"
      and "k < length lines" and "lines ! k = BadLine e"
      and "\<forall>i<k. \<not> (env_stop_button env \<or> env_stop_flag env i) \<and> well_formed (lines ! i)"
      and "\<not> (env_stop_button env \<or> env_stop_flag env k)"
    using stream_response_raised
      [where backend = "env_backend env" and stop_button = "env_stop_button env"
        and flag = "env_stop_flag env" and sess = sess, OF that(1,2,4,5,3)]
    by simp
  from post broken bad display_chat_page_submit [OF assms, of sess db] show ?thesis
    by blast
qed

theorem display_chat_page_backend_failure_witness:
  "messages_table (snd (display_chat_page
     \<lparr>env_ollama_running = True, env_user_input = Some ''hello'',
      env_display_time = ''09:00 AM'',
      env_backend = (\<lambda>prompt. PostRaises ''Read timed out.''),
      env_stop_button = False, env_stop_flag = (\<lambda>i. False),
      env_clock_user = 10, env_clock_assistant = 70\<rparr>
     \<lparr>session_messages = [], session_model_ready = False, session_current_response = '''',
      session_conversation_id = 1, session_page = ''chat'', session_stop_generation = False\<rparr>
     empty_database))
   = [\<lparr>msg_id = 1, msg_conversation_id = 1, msg_role = ''user'', msg_content = ''hello'',
       msg_timestamp = 10\<rparr>,
      \<lparr>msg_id = 2, msg_conversation_id = 1, msg_role = ''assistant'',
       msg_content = ''Error: Read timed out.'', msg_timestamp = 70\<rparr>]
   \<and> session_messages (fst (display_chat_page
     \<lparr>env_ollama_running = True, env_user_input = Some ''hello'',
      env_display_time = ''09:00 AM'',
      env_backend = (\<lambda>prompt. Streaming [JsonLine (Some ''Hi''), BadLine ''Expecting value'']
                       EndOfStream),
      env_stop_button = False, env_stop_flag = (\<lambda>i. False),
      env_clock_user = 10, env_clock_assistant = 70\<rparr>
     \<lparr>session_messages = [], session_model_ready = False, session_current_response = '''',
      session_conversation_id = 1, session_page = ''chat'', session_stop_generation = False\<rparr>
     empty_database))
   = [\<lparr>role = ''user'', content = ''hello'', timestamp = ''09:00 AM''\<rparr>,
      \<lparr>role = ''assistant'', content = ''Error: Expecting value'', timestamp = ''09:00 AM''\<rparr>]"
proof -
  let ?env1 = "\<lparr>env_ollama_running = True, env_user_input = Some ''hello'',
      env_display_time = ''09:00 AM'',
      env_backend = (\<lambda>prompt. PostRaises ''Read timed out.''),
      env_stop_button = False, env_stop_flag = (\<lambda>i. False),
      env_clock_user = 10, env_clock_assistant = 70\<rparr>"
  let ?lines = "[JsonLine (Some ''Hi''), BadLine ''Expecting value'']"
  let ?env2 = "\<lparr>env_ollama_running = True, env_user_input = Some ''hello'',
      env_display_time = ''09:00 AM'',
      env_backend = (\<lambda>prompt. Streaming ?lines EndOfStream),
      env_stop_button = False, env_stop_flag = (\<lambda>i. False),
      env_clock_user = 10, env_clock_assistant = 70\<rparr>"
  let ?sess = "\<lparr>session_messages = [], session_model_ready = False,
      session_current_response = '''', session_conversation_id = 1, session_page = ''chat'',
      session_stop_generation = False\<rparr>"
  have a1: "env_ollama_running ?env1" "env_user_input ?env1 = Some ''hello''" "''hello'' \<noteq> []"
    by simp_all
  have a2: "env_ollama_running ?env2" "env_user_input ?env2 = Some ''hello''"
    by simp_all
  have e1: "env_backend ?env1 (''hello'' @ PROMPT_SUFFIX) = PostRaises ''Read timed out.''"
    by simp
  have e2: "env_backend ?env2 (''hello'' @ PROMPT_SUFFIX) = Streaming ?lines EndOfStream
      \<and> 1 < length ?lines \<and> ?lines ! 1 = BadLine ''Expecting value''
      \<and> (\<forall>i<1. \<not> (env_stop_button ?env2 \<or> env_stop_flag ?env2 i) \<and> well_formed (?lines ! i))
      \<and> \<not> (env_stop_button ?env2 \<or> env_stop_flag ?env2 1)"
    by simp
  from display_chat_page_backend_failure [OF a1, of ?sess empty_database "''Read timed out.''"] e1
  have r1: "messages_table (snd (display_chat_page ?env1 ?sess empty_database))
   = [\<lparr>msg_id = 1, msg_conversation_id = 1, msg_role = ''user'', msg_content = ''hello'',
       msg_timestamp = 10\<rparr>,
      \<lparr>msg_id = 2, msg_conversation_id = 1, msg_role = ''assistant'',
       msg_content = ''Error: Read timed out.'', msg_timestamp = 70\<rparr>]"
    by (simp add: empty_database_def)
  from display_chat_page_backend_failure [OF a2 a1(3), of ?sess empty_database
      "''Expecting value''" ?lines EndOfStream 1] e2
  have r2: "session_messages (fst (display_chat_page ?env2 ?sess empty_database))
   = [\<lparr>role = ''user'', content = ''hello'', timestamp = ''09:00 AM''\<rparr>,
      \<lparr>role = ''assistant'', content = ''Error: Expecting value'', timestamp = ''09:00 AM''\<rparr>]"
    by simp
  from r1 r2 show ?thesis by simp
qed

end
